theory Spec2Isabelle
  imports Main "HOL-Library.AList"
begin

section \<open>Data model\<close>

text \<open>
  The OpenAI adapter (\<^verbatim>\<open>pydantic_ai/models/openai.py\<close>) is embedded function by function.
  Python objects become records and datatypes, \<^verbatim>\<open>None\<close>-able fields become options,
  raised exceptions become the left injection of a sum, and an asynchronous stream of
  chunks becomes the list of chunks still to be delivered.  A \<^verbatim>\<open>datetime\<close> in UTC is kept
  as the epoch seconds it stands for; the conversion from the \<^verbatim>\<open>created\<close> value the
  provider sends fails outside the years 1 to 9999.
\<close>

datatype json = JNull | JBool bool | JInt int | JStr string
  | JArr "json list" | JObj "(string \<times> json) list"

datatype error =
    UnexpectedModelBehavior string
  | AssertionError string
  | IndexError
  | RuntimeError string
  | TimestampOutOfRange

text \<open>
  \<^verbatim>\<open>datetime.fromtimestamp(created, tz=timezone.utc)\<close> on an integer number of seconds.
  The result lies between \<^verbatim>\<open>0001-01-01T00:00:00\<close> and \<^verbatim>\<open>9999-12-31T23:59:59\<close>; outside
  that range the call raises (\<^verbatim>\<open>ValueError\<close> for a year out of range, \<^verbatim>\<open>OverflowError\<close>
  or \<^verbatim>\<open>OSError\<close> further out, depending on the platform), and the one error
  \<open>TimestampOutOfRange\<close> stands for that raise.
\<close>

definition valid_timestamp :: "int \<Rightarrow> bool" where
  "valid_timestamp seconds = (- 62135596800 \<le> seconds \<and> seconds \<le> 253402300799)"

definition fromtimestamp :: "int \<Rightarrow> error + int" where
  "fromtimestamp seconds =
     (if valid_timestamp seconds then Inr seconds else Inl TimestampOutOfRange)"

text \<open>
  Modelled from the spec: \<^verbatim>\<open>ToolCall\<close> of \<^verbatim>\<open>pydantic_ai/messages.py\<close> (section 3), which is
  not part of the sources at hand: a tool name, the arguments as raw JSON text
  (\<^verbatim>\<open>ArgsJson\<close>) or as a parsed mapping (\<^verbatim>\<open>ArgsDict\<close>), and an optional provider call id.
\<close>

datatype tool_args = ArgsJson string | ArgsDict "(string \<times> json) list"

record tool_call =
  tool_name :: string
  args :: tool_args
  tool_call_id :: "string option"

text \<open>
  Modelled from the spec: \<^verbatim>\<open>ToolCall.from_json(tool_name, args_json, tool_call_id)\<close>, the
  constructor the adapter calls; the tests compare its result with
  \<^verbatim>\<open>ToolCall(tool_name=..., args=ArgsJson(args_json=...))\<close>.
\<close>

definition from_json :: "string \<Rightarrow> string \<Rightarrow> string option \<Rightarrow> tool_call" where
  "from_json nm aj cid = \<lparr>tool_name = nm, args = ArgsJson aj, tool_call_id = cid\<rparr>"

text \<open>
  Modelled from the spec: the content of a retry prompt (section 4.4), a text or a list of
  structured error records (error kind, field path, message, offending input).
\<close>

record error_details =
  err_type :: string
  err_loc :: "string list"
  err_msg :: string
  err_input :: json

datatype retry_content = RetryText string | RetryErrors "error_details list"

text \<open>
  Modelled from the spec: the six message roles of \<^verbatim>\<open>pydantic_ai/messages.py\<close>
  (section 3).  Model responses carry the timestamp the adapter computes;
  \<^verbatim>\<open>ToolReturn\<close> is (tool name, content, call id) and \<^verbatim>\<open>RetryPrompt\<close> is
  (content, tool name, call id), its content a text or a list of error records.  The
  timestamps of the other roles are the clock's and are left out.
\<close>

datatype message =
    SystemPrompt string
  | UserPrompt string
  | ModelTextResponse string int
  | ModelStructuredResponse "tool_call list" int
  | ToolReturn string string "string option"
  | RetryPrompt retry_content "string option" "string option"

text \<open>
  Modelled from the spec: \<^verbatim>\<open>ToolDefinition\<close> of \<^verbatim>\<open>pydantic_ai/tools.py\<close> (section 3).
\<close>

record tool_definition =
  name :: string
  description :: string
  parameters_json_schema :: json
  outer_typed_dict_key :: "string option"

subsection \<open>Cost\<close>

text \<open>
  Modelled from the spec: the class \<^verbatim>\<open>Cost\<close> of \<^verbatim>\<open>pydantic_ai/result.py\<close>, which is not
  part of the sources at hand.  Its fields are the three token counters and the mapping
  of named sub-counters; the identity has all-zero and empty fields; addition sums the
  counters and unions the details, summing the values of a key present on both sides.
\<close>

record cost =
  request_tokens :: int
  response_tokens :: int
  total_tokens :: int
  details :: "(string \<times> int) list"

definition Cost :: cost where
  "Cost = \<lparr>request_tokens = 0, response_tokens = 0, total_tokens = 0, details = []\<rparr>"

fun add_detail :: "string \<times> int \<Rightarrow> (string \<times> int) list \<Rightarrow> (string \<times> int) list" where
  "add_detail (k, v) ds =
     (case map_of ds k of
        None \<Rightarrow> ds @ [(k, v)]
      | Some w \<Rightarrow> AList.update k (w + v) ds)"

definition cost_add :: "cost \<Rightarrow> cost \<Rightarrow> cost" where
  "cost_add a b =
     \<lparr>request_tokens = request_tokens a + request_tokens b,
      response_tokens = response_tokens a + response_tokens b,
      total_tokens = total_tokens a + total_tokens b,
      details = fold add_detail (details b) (details a)\<rparr>"

subsection \<open>Provider wire types\<close>

text \<open>
  \<^verbatim>\<open>CompletionUsage\<close>; the two detail objects are kept as what
  \<^verbatim>\<open>model_dump(exclude_none=True)\<close> returns for them.
\<close>

record usage =
  prompt_tokens :: int
  completion_tokens :: int
  usage_total_tokens :: int
  completion_tokens_details :: "(string \<times> int) list option"
  prompt_tokens_details :: "(string \<times> int) list option"

text \<open>\<^verbatim>\<open>ChoiceDeltaToolCallFunction\<close> and \<^verbatim>\<open>ChoiceDeltaToolCall\<close>.\<close>

record delta_function =
  fn_arguments :: "string option"
  fn_name :: "string option"

record delta_tool_call =
  tc_index :: int
  tc_id :: "string option"
  tc_function :: "delta_function option"

text \<open>\<^verbatim>\<open>ChoiceDelta\<close>, the chunk's \<^verbatim>\<open>Choice\<close> and \<^verbatim>\<open>ChatCompletionChunk\<close>.\<close>

record choice_delta =
  content :: "string option"
  tool_calls :: "delta_tool_call list option"

record chunk_choice =
  delta :: choice_delta
  finish_reason :: "string option"

record chunk =
  created :: int
  choices :: "chunk_choice list"
  chunk_usage :: "usage option"

text \<open>
  The non-streamed \<^verbatim>\<open>ChatCompletion\<close> with its message and tool calls; a choice is
  kept as the message it holds.
\<close>

record completion_function =
  cf_name :: string
  cf_arguments :: string

record completion_tool_call =
  ct_id :: string
  ct_function :: completion_function

record completion_message =
  cm_content :: "string option"
  cm_tool_calls :: "completion_tool_call list option"

record chat_completion =
  cc_created :: int
  cc_choices :: "completion_message list"
  cc_usage :: "usage option"

text \<open>What the adapter sends: the mapped messages, tools and request keywords.\<close>

record tool_call_param =
  tcp_id :: string
  tcp_name :: string
  tcp_arguments :: string

datatype chat_message =
    SystemMessage string
  | UserMessage string
  | ToolMessage string string
  | AssistantMessage string
  | AssistantToolCalls "tool_call_param list"

record tool_param =
  tp_name :: string
  tp_description :: string
  tp_parameters :: json

text \<open>
  The keyword arguments of \<^verbatim>\<open>client.chat.completions.create\<close>; \<^verbatim>\<open>NOT_GIVEN\<close> is
  \<open>None\<close>.
\<close>

record request =
  req_model :: string
  req_messages :: "chat_message list"
  req_n :: nat
  req_parallel_tool_calls :: "bool option"
  req_tools :: "tool_param list option"
  req_tool_choice :: "string option"
  req_stream :: bool
  req_include_usage :: "bool option"

record openai_agent_model =
  model_name :: string
  allow_text_result :: bool
  tools :: "tool_param list"

section \<open>The request side of the adapter\<close>

definition map_tool_definition :: "tool_definition \<Rightarrow> tool_param" where
  "map_tool_definition f =
     \<lparr>tp_name = name f, tp_description = description f,
      tp_parameters = parameters_json_schema f\<rparr>"

text \<open>
  Modelled from the spec: \<^verbatim>\<open>check_allow_model_requests\<close> of \<^verbatim>\<open>pydantic_ai/models\<close>, not
  part of the sources at hand.  A boolean flag gates real requests; when it is false the
  attempt raises an error naming the flag (the wording is the one the tests match).
\<close>

definition check_allow_model_requests :: "bool \<Rightarrow> error + unit" where
  "check_allow_model_requests allow =
     (if allow then Inr ()
      else Inl (RuntimeError
        ''Model requests are not allowed, since ALLOW_MODEL_REQUESTS is False''))"

text \<open>
  \<^verbatim>\<open>OpenAIModel.agent_model\<close>: function tools first, then the result tools when there
  are any.
\<close>

definition agent_model ::
  "bool \<Rightarrow> string \<Rightarrow> tool_definition list \<Rightarrow> bool \<Rightarrow> tool_definition list
    \<Rightarrow> error + openai_agent_model" where
  "agent_model allow nm function_tools atr result_tools =
     (case check_allow_model_requests allow of
        Inl e \<Rightarrow> Inl e
      | Inr _ \<Rightarrow>
          Inr \<lparr>model_name = nm, allow_text_result = atr,
               tools = map map_tool_definition function_tools
                 @ (if result_tools \<noteq> [] then map map_tool_definition result_tools else [])\<rparr>)"

text \<open>
  Modelled from the spec: \<^verbatim>\<open>guard_tool_call_id\<close> of \<^verbatim>\<open>pydantic_ai/_utils.py\<close>, not part of
  the sources at hand.  A tool-addressed message without a provider call id is a guarded
  failure; otherwise the id is returned.
\<close>

definition guard_tool_call_id :: "string option \<Rightarrow> string \<Rightarrow> error + string" where
  "guard_tool_call_id cid model_source =
     (case cid of
        None \<Rightarrow> Inl (AssertionError (model_source @ '' requires `tool_call_id` to be set''))
      | Some i \<Rightarrow> Inr i)"

text \<open>\<^verbatim>\<open>_map_tool_call\<close>: the arguments must be \<^verbatim>\<open>ArgsJson\<close>, the id must be set.\<close>

definition map_tool_call :: "tool_call \<Rightarrow> error + tool_call_param" where
  "map_tool_call t =
     (case args t of
        ArgsDict _ \<Rightarrow> Inl (AssertionError ''Expected ArgsJson'')
      | ArgsJson aj \<Rightarrow>
          (case guard_tool_call_id (tool_call_id t) ''OpenAI'' of
             Inl e \<Rightarrow> Inl e
           | Inr i \<Rightarrow> Inr \<lparr>tcp_id = i, tcp_name = tool_name t, tcp_arguments = aj\<rparr>))"

text \<open>A list comprehension over a function that may raise: the first failure wins.\<close>

fun map_raising :: "('a \<Rightarrow> error + 'b) \<Rightarrow> 'a list \<Rightarrow> error + 'b list" where
  "map_raising f [] = Inr []"
| "map_raising f (x # xs) =
     (case f x of
        Inl e \<Rightarrow> Inl e
      | Inr y \<Rightarrow> (case map_raising f xs of Inl e \<Rightarrow> Inl e | Inr ys \<Rightarrow> Inr (y # ys)))"

text \<open>
  \<^verbatim>\<open>_map_message\<close>.  The renderings \<^verbatim>\<open>RetryPrompt.model_response\<close> (here \<open>rr\<close>) belong
  to \<^verbatim>\<open>pydantic_ai/messages.py\<close>, which is not part of the sources at hand, and are taken
  as a parameter; a tool return's content is already text in this model.
\<close>

fun map_message :: "(retry_content \<Rightarrow> string) \<Rightarrow> message \<Rightarrow> error + chat_message" where
  "map_message rr (SystemPrompt c) = Inr (SystemMessage c)"
| "map_message rr (UserPrompt c) = Inr (UserMessage c)"
| "map_message rr (ToolReturn tn c cid) =
     (case guard_tool_call_id cid ''OpenAI'' of
        Inl e \<Rightarrow> Inl e
      | Inr i \<Rightarrow> Inr (ToolMessage i c))"
| "map_message rr (RetryPrompt c tn cid) =
     (case tn of
        None \<Rightarrow> Inr (UserMessage (rr c))
      | Some _ \<Rightarrow>
          (case guard_tool_call_id cid ''OpenAI'' of
             Inl e \<Rightarrow> Inl e
           | Inr i \<Rightarrow> Inr (ToolMessage i (rr c))))"
| "map_message rr (ModelTextResponse c ts) = Inr (AssistantMessage c)"
| "map_message rr (ModelStructuredResponse calls ts) =
     (case map_raising map_tool_call calls of
        Inl e \<Rightarrow> Inl e
      | Inr cs \<Rightarrow> Inr (AssistantToolCalls cs))"

text \<open>
  \<^verbatim>\<open>_completions_create\<close>: the choice of \<^verbatim>\<open>tool_choice\<close>, then the mapped messages, then
  the request keywords, where \<^verbatim>\<open>x or NOT_GIVEN\<close> drops an empty list and a \<^verbatim>\<open>None\<close>.
\<close>

definition completions_create ::
  "(retry_content \<Rightarrow> string) \<Rightarrow> openai_agent_model \<Rightarrow> message list \<Rightarrow> bool
    \<Rightarrow> error + request" where
  "completions_create rr self messages stream =
     (let tool_choice =
            (if tools self = [] then None
             else if \<not> allow_text_result self then Some ''required''
             else Some ''auto'')
      in case map_raising (map_message rr) messages of
           Inl e \<Rightarrow> Inl e
         | Inr openai_messages \<Rightarrow>
             Inr \<lparr>req_model = model_name self,
                  req_messages = openai_messages,
                  req_n = 1,
                  req_parallel_tool_calls = (if tools self \<noteq> [] then Some True else None),
                  req_tools = (if tools self \<noteq> [] then Some (tools self) else None),
                  req_tool_choice = tool_choice,
                  req_stream = stream,
                  req_include_usage = (if stream then Some True else None)\<rparr>)"

section \<open>The response side of the adapter\<close>

text \<open>
  \<^verbatim>\<open>_process_response\<close>: the timestamp is converted first, which raises for a
  \<^verbatim>\<open>created\<close> value out of range; \<^verbatim>\<open>response.choices[0]\<close> raises on an empty list; tool
  calls are looked at first; the text branch asserts that there is content.
\<close>

definition process_response :: "chat_completion \<Rightarrow> error + message" where
  "process_response response =
     (case fromtimestamp (cc_created response) of
        Inl e \<Rightarrow> Inl e
      | Inr timestamp \<Rightarrow>
          (case cc_choices response of
             [] \<Rightarrow> Inl IndexError
           | choice # _ \<Rightarrow>
               (case cm_tool_calls choice of
                  Some tcs \<Rightarrow>
                    Inr (ModelStructuredResponse
                          (map (\<lambda>c. from_json (cf_name (ct_function c))
                                       (cf_arguments (ct_function c)) (Some (ct_id c))) tcs)
                          timestamp)
                | None \<Rightarrow>
                    (case cm_content choice of
                       None \<Rightarrow> Inl (AssertionError ''choice.message.content is not None'')
                     | Some c \<Rightarrow> Inr (ModelTextResponse c timestamp)))))"


section \<open>Streamed responses\<close>

text \<open>
  \<^verbatim>\<open>_map_cost\<close>, applied to the \<^verbatim>\<open>usage\<close> field of a completion or a chunk.
  \<^verbatim>\<open>dict.update\<close> overwrites the value of a key already present and appends a new key.
\<close>

definition dict_update :: "('k \<times> 'v) list \<Rightarrow> ('k \<times> 'v) list \<Rightarrow> ('k \<times> 'v) list" where
  "dict_update d other = fold (\<lambda>(k, v). AList.update k v) other d"

definition map_cost :: "usage option \<Rightarrow> cost" where
  "map_cost u =
     (case u of
        None \<Rightarrow> Cost
      | Some usage \<Rightarrow>
          (let details0 = [];
               details1 = (case completion_tokens_details usage of
                             None \<Rightarrow> details0 | Some d \<Rightarrow> dict_update details0 d);
               details2 = (case prompt_tokens_details usage of
                             None \<Rightarrow> details1 | Some d \<Rightarrow> dict_update details1 d)
           in \<lparr>request_tokens = prompt_tokens usage,
               response_tokens = completion_tokens usage,
               total_tokens = usage_total_tokens usage,
               details = details2\<rparr>))"

text \<open>
  \<^verbatim>\<open>OpenAIStreamTextResponse\<close> and \<^verbatim>\<open>OpenAIStreamStructuredResponse\<close>.  The field
  \<^verbatim>\<open>_response\<close> holds the chunks not yet consumed; \<^verbatim>\<open>_delta_tool_calls\<close> is a Python
  dict, kept as an association list in insertion order.
\<close>

record stream_text_response =
  st_first :: "string option"
  st_response :: "chunk list"
  st_timestamp :: int
  st_cost :: cost
  st_buffer :: "string list"

record stream_structured_response =
  ss_response :: "chunk list"
  ss_delta_tool_calls :: "(int \<times> delta_tool_call) list"
  ss_timestamp :: int
  ss_cost :: cost

datatype either_streamed_response =
    StreamText stream_text_response
  | StreamStructured stream_structured_response

text \<open>
  \<^verbatim>\<open>_process_streamed_response\<close>.  The loop variables \<^verbatim>\<open>timestamp\<close> and \<^verbatim>\<open>start_cost\<close>
  are arguments; the end of the stream inside the loop raises.  In
  \<^verbatim>\<open>timestamp = timestamp or datetime.fromtimestamp(chunk.created, ...)\<close> the conversion
  runs only while \<^verbatim>\<open>timestamp\<close> is \<^verbatim>\<open>None\<close>, that is on the first chunk, and raises for
  a \<^verbatim>\<open>created\<close> value out of range.  The dict comprehension
  \<^verbatim>\<open>{c.index: c for c in delta.tool_calls}\<close> keeps the last delta of an index.
\<close>

definition index_deltas :: "delta_tool_call list \<Rightarrow> (int \<times> delta_tool_call) list" where
  "index_deltas tcs = fold (\<lambda>c d. AList.update (tc_index c) c d) tcs []"

fun process_streamed_loop ::
  "int option \<Rightarrow> cost \<Rightarrow> chunk list \<Rightarrow> error + either_streamed_response" where
  "process_streamed_loop timestamp start_cost [] =
     Inl (UnexpectedModelBehavior ''Streamed response ended without content or tool calls'')"
| "process_streamed_loop timestamp start_cost (chunk # response) =
     (case (case timestamp of Some t \<Rightarrow> Inr t | None \<Rightarrow> fromtimestamp (created chunk)) of
        Inl e \<Rightarrow> Inl e
      | Inr timestamp' \<Rightarrow>
          (let start_cost' = cost_add start_cost (map_cost (chunk_usage chunk))
           in case choices chunk of
                [] \<Rightarrow> process_streamed_loop (Some timestamp') start_cost' response
              | choice # _ \<Rightarrow>
                  (case content (delta choice) of
                     Some c \<Rightarrow>
                       Inr (StreamText
                         \<lparr>st_first = Some c, st_response = response, st_timestamp = timestamp',
                          st_cost = start_cost', st_buffer = []\<rparr>)
                   | None \<Rightarrow>
                       (case tool_calls (delta choice) of
                          Some tcs \<Rightarrow>
                            Inr (StreamStructured
                              \<lparr>ss_response = response, ss_delta_tool_calls = index_deltas tcs,
                               ss_timestamp = timestamp', ss_cost = start_cost'\<rparr>)
                        | None \<Rightarrow>
                            process_streamed_loop (Some timestamp') start_cost' response))))"

definition process_streamed_response :: "chunk list \<Rightarrow> error + either_streamed_response" where
  "process_streamed_response response = process_streamed_loop None Cost response"

text \<open>
  How one call of \<^verbatim>\<open>__anext__\<close> ends: it returns, it raises \<^verbatim>\<open>StopAsyncIteration\<close>, or
  it raises an error.  The object is mutated up to that point, so the state comes back in
  every case.
\<close>

datatype outcome = Returned | StopAsyncIteration | Raised error

text \<open>\<^verbatim>\<open>OpenAIStreamTextResponse.__anext__\<close>, \<^verbatim>\<open>get\<close>, \<^verbatim>\<open>cost\<close> and \<^verbatim>\<open>timestamp\<close>.\<close>

definition text_anext :: "stream_text_response \<Rightarrow> outcome \<times> stream_text_response" where
  "text_anext self =
     (case st_first self of
        Some f \<Rightarrow> (Returned, self\<lparr>st_buffer := st_buffer self @ [f], st_first := None\<rparr>)
      | None \<Rightarrow>
          (case st_response self of
             [] \<Rightarrow> (StopAsyncIteration, self)
           | chunk # rest \<Rightarrow>
               (let self1 = self\<lparr>st_response := rest,
                                 st_cost := cost_add (st_cost self) (map_cost (chunk_usage chunk))\<rparr>
                in case choices chunk of
                     [] \<Rightarrow> (StopAsyncIteration, self1)
                   | choice # _ \<Rightarrow>
                       (if finish_reason choice = None \<and> content (delta choice) = None
                        then (Raised (AssertionError ''Expected delta with content''), self1)
                        else (case content (delta choice) of
                                Some c \<Rightarrow> (Returned, self1\<lparr>st_buffer := st_buffer self1 @ [c]\<rparr>)
                              | None \<Rightarrow> (Returned, self1))))))"

definition text_get :: "stream_text_response \<Rightarrow> string list \<times> stream_text_response" where
  "text_get self = (st_buffer self, self\<lparr>st_buffer := []\<rparr>)"

definition text_timestamp :: "stream_text_response \<Rightarrow> int" where
  "text_timestamp self = st_timestamp self"

text \<open>
  Modelled from the spec: \<^verbatim>\<open>add_optional\<close> of \<^verbatim>\<open>pydantic_ai/_utils.py\<close>, not part of the
  sources at hand.  A present incoming fragment is appended to the existing one, never
  put in its place; an absent side leaves the other one as it is.
\<close>

fun add_optional :: "string option \<Rightarrow> string option \<Rightarrow> string option" where
  "add_optional None b = b"
| "add_optional (Some a) None = Some a"
| "add_optional (Some a) (Some b) = Some (a @ b)"

text \<open>
  The body of the loop \<^verbatim>\<open>for new in choice.delta.tool_calls or []\<close> of
  \<^verbatim>\<open>OpenAIStreamStructuredResponse.__anext__\<close>.  A stored delta is an object and so
  always true in \<^verbatim>\<open>if current := ...get(new.index)\<close>: the test is whether the index is in
  the dict.  The object found under the index is mutated in place, so it keeps its
  position in the dict; an unseen index is stored at the end.
\<close>

definition merge_delta ::
  "(int \<times> delta_tool_call) list \<Rightarrow> delta_tool_call \<Rightarrow> (int \<times> delta_tool_call) list" where
  "merge_delta calls new =
     (case map_of calls (tc_index new) of
        Some current \<Rightarrow>
          (case tc_function current of
             None \<Rightarrow> AList.update (tc_index new) (current\<lparr>tc_function := tc_function new\<rparr>) calls
           | Some cf \<Rightarrow>
               (case tc_function new of
                  Some nf \<Rightarrow>
                    AList.update (tc_index new)
                      (current\<lparr>tc_function := Some
                         \<lparr>fn_arguments = add_optional (fn_arguments cf) (fn_arguments nf),
                          fn_name = add_optional (fn_name cf) (fn_name nf)\<rparr>\<rparr>)
                      calls
                | None \<Rightarrow> calls))
      | None \<Rightarrow> AList.update (tc_index new) new calls)"

definition structured_anext ::
  "stream_structured_response \<Rightarrow> outcome \<times> stream_structured_response" where
  "structured_anext self =
     (case ss_response self of
        [] \<Rightarrow> (StopAsyncIteration, self)
      | chunk # rest \<Rightarrow>
          (let self1 = self\<lparr>ss_response := rest,
                            ss_cost := cost_add (ss_cost self) (map_cost (chunk_usage chunk))\<rparr>
           in case choices chunk of
                [] \<Rightarrow> (StopAsyncIteration, self1)
              | choice # _ \<Rightarrow>
                  (if finish_reason choice \<noteq> None then (StopAsyncIteration, self1)
                   else if content (delta choice) \<noteq> None
                   then (Raised (AssertionError ''Expected tool calls, got content instead''), self1)
                   else (Returned,
                         self1\<lparr>ss_delta_tool_calls :=
                           fold (\<lambda>new calls. merge_delta calls new)
                             (case tool_calls (delta choice) of None \<Rightarrow> [] | Some tcs \<Rightarrow> tcs)
                             (ss_delta_tool_calls self1)\<rparr>))))"

text \<open>
  \<^verbatim>\<open>OpenAIStreamStructuredResponse.get\<close>: the loop over the dict's values, appending a
  call for a delta whose function carries both a name and arguments.
\<close>

fun get_calls :: "(int \<times> delta_tool_call) list \<Rightarrow> tool_call list" where
  "get_calls [] = []"
| "get_calls ((i, c) # rest) =
     (case tc_function c of
        None \<Rightarrow> get_calls rest
      | Some f \<Rightarrow>
          (case fn_name f of
             None \<Rightarrow> get_calls rest
           | Some n \<Rightarrow>
               (case fn_arguments f of
                  None \<Rightarrow> get_calls rest
                | Some a \<Rightarrow> from_json n a (tc_id c) # get_calls rest)))"

definition structured_get :: "stream_structured_response \<Rightarrow> message" where
  "structured_get self =
     ModelStructuredResponse (get_calls (ss_delta_tool_calls self)) (ss_timestamp self)"

definition structured_timestamp :: "stream_structured_response \<Rightarrow> int" where
  "structured_timestamp self = ss_timestamp self"

text \<open>
  A delta is complete when its function carries both a name and arguments; the call it
  then stands for.
\<close>

definition name_and_arguments_present :: "delta_tool_call \<Rightarrow> bool" where
  "name_and_arguments_present c =
     (case tc_function c of
        None \<Rightarrow> False
      | Some f \<Rightarrow> fn_name f \<noteq> None \<and> fn_arguments f \<noteq> None)"

definition completed_call :: "delta_tool_call \<Rightarrow> tool_call" where
  "completed_call c =
     from_json (the (fn_name (the (tc_function c)))) (the (fn_arguments (the (tc_function c))))
       (tc_id c)"

text \<open>
  The methods \<^verbatim>\<open>cost()\<close> and \<^verbatim>\<open>timestamp()\<close> of whichever streamed response the
  bootstrap returned.
\<close>

definition either_cost :: "either_streamed_response \<Rightarrow> cost" where
  "either_cost r = (case r of StreamText t \<Rightarrow> st_cost t | StreamStructured s \<Rightarrow> ss_cost s)"

definition either_timestamp :: "either_streamed_response \<Rightarrow> int" where
  "either_timestamp r =
     (case r of StreamText t \<Rightarrow> text_timestamp t | StreamStructured s \<Rightarrow> structured_timestamp s)"

text \<open>
  The test the bootstrap loop makes on a chunk: it has a choice whose delta has
  \<^verbatim>\<open>content\<close> or \<^verbatim>\<open>tool_calls\<close> other than \<^verbatim>\<open>None\<close>.
\<close>

definition has_content_or_tool_calls :: "chunk \<Rightarrow> bool" where
  "has_content_or_tool_calls c =
     (case choices c of
        [] \<Rightarrow> False
      | choice # _ \<Rightarrow> content (delta choice) \<noteq> None \<or> tool_calls (delta choice) \<noteq> None)"

text \<open>
  The spec's wording of an informative chunk: it carries textual content or at least one
  tool-call delta.
\<close>

definition carries_text_or_tool_call_delta :: "chunk \<Rightarrow> bool" where
  "carries_text_or_tool_call_delta c =
     (case choices c of
        [] \<Rightarrow> False
      | choice # _ \<Rightarrow>
          content (delta choice) \<noteq> None
          \<or> (case tool_calls (delta choice) of None \<Rightarrow> False | Some tcs \<Rightarrow> tcs \<noteq> []))"

text \<open>The usage of a sequence of chunks added, one after the other, to a cost.\<close>

definition accumulate :: "cost \<Rightarrow> chunk list \<Rightarrow> cost" where
  "accumulate k cs = fold (\<lambda>c acc. cost_add acc (map_cost (chunk_usage c))) cs k"

section \<open>The result schema and the run loop\<close>

text \<open>
  Modelled from the spec: the run loop (\<^verbatim>\<open>pydantic_ai/agent.py\<close>) and the result schema
  (\<^verbatim>\<open>pydantic_ai/_result.py\<close>), which are not part of the sources at hand; only their
  tests (\<^verbatim>\<open>tests/test_agent.py\<close>) are.  Every definition of this section follows
  sections 3, 4.3 and 4.4 of the spec, and the snapshots of the tests where the spec
  leaves a choice open or words it differently.  The validation engine, the result validator and the
  function tools are parameters of the agent.
\<close>

text \<open>
  Modelled from the spec: the members of a declared result type, a plain-text member or a
  named type with its optional docstring (section 4.3).
\<close>

datatype result_member = PlainText | Model string "string option"

record result_tool =
  rt_name :: string
  rt_description :: string
  rt_type :: string

text \<open>
  Modelled from the spec: the generic description of a result tool; its wording is the
  one of the snapshots of \<^verbatim>\<open>test_response_tuple\<close>.
\<close>

definition DEFAULT_DESCRIPTION :: string where
  "DEFAULT_DESCRIPTION = ''The final response which ends this conversation''"

text \<open>
  Modelled from the spec: the members of a declared result type that get a result tool,
  that is all but the plain-text member (section 4.3; \<^verbatim>\<open>test_response_union_allow_str\<close>
  expects the single tool \<^verbatim>\<open>final_result\<close> for \<^verbatim>\<open>Union[str, Foo]\<close>).
\<close>

fun structured_members :: "result_member list \<Rightarrow> (string \<times> string option) list" where
  "structured_members [] = []"
| "structured_members (PlainText # ms) = structured_members ms"
| "structured_members (Model n d # ms) = (n, d) # structured_members ms"

text \<open>
  Modelled from the spec: text results are allowed iff the declared result type has a
  plain-text member (section 4.3).
\<close>

definition allow_text :: "result_member list \<Rightarrow> bool" where
  "allow_text ms = (PlainText \<in> set ms)"

text \<open>
  Modelled from the spec: the result tools of \<^verbatim>\<open>ResultSchema\<close> (section 4.3).  One
  member gives the tool \<^verbatim>\<open>final_result\<close>, several members give one tool
  \<^verbatim>\<open>final_result_<MemberTypeName>\<close> each.  The description follows the snapshot of
  \<^verbatim>\<open>test_response_multiple_return_tools\<close>: a member with a docstring is described by the
  docstring alone (\<^verbatim>\<open>'This is a bar model.'\<close>), a member without one by the generic
  description, prefixed with the type name when there are several members
  (\<^verbatim>\<open>'Foo: The final response which ends this conversation'\<close>).
\<close>

definition result_tool_of :: "bool \<Rightarrow> string \<times> string option \<Rightarrow> result_tool" where
  "result_tool_of multiple m =
     (case m of (n, d) \<Rightarrow>
        \<lparr>rt_name = (if multiple then ''final_result_'' @ n else ''final_result''),
         rt_description =
           (case d of
              Some doc \<Rightarrow> doc
            | None \<Rightarrow> if multiple then n @ '': '' @ DEFAULT_DESCRIPTION else DEFAULT_DESCRIPTION),
         rt_type = n\<rparr>)"

definition result_tools :: "result_member list \<Rightarrow> result_tool list" where
  "result_tools ms =
     (let members = structured_members ms
      in map (result_tool_of (1 < length members)) members)"

text \<open>
  Modelled from the spec: the result tool a call's name resolves to, if any (section 4.4,
  "name matches a result-schema tool").
\<close>

definition find_tool :: "result_tool list \<Rightarrow> string \<Rightarrow> result_tool option" where
  "find_tool ts nm = find (\<lambda>t. rt_name t = nm) ts"

text \<open>
  Modelled from the spec: the final data of a run, the text of a plain response or a
  validated value, and \<^verbatim>\<open>RunResult\<close> (section 3), whose \<^verbatim>\<open>new_messages()\<close> is the history
  sliced from \<^verbatim>\<open>new_message_index\<close>.
\<close>

datatype 'v data = Text string | Value 'v

record 'v run_result =
  all_messages :: "message list"
  new_message_index :: nat
  result_data :: "'v data"
  run_cost :: cost

definition new_messages :: "'v run_result \<Rightarrow> message list" where
  "new_messages r = drop (new_message_index r) (all_messages r)"

text \<open>
  Modelled from the spec: what the run loop knows of an agent.  A function tool returns
  its result as text or signals a retry with a message (\<open>Inl\<close>); the validation engine
  returns a value of the member type or a list of error records (\<open>Inl\<close>); the result
  validator returns the data or asks for a retry with a message (\<open>Inl\<close>).  The wording of
  the list of valid tool names in the unknown-tool prompt is not given by the spec and is
  a parameter.
\<close>

record 'v agent =
  ag_system_prompts :: "string list"
  ag_function_tools :: "(string \<times> (tool_args \<Rightarrow> string + string)) list"
  ag_result_type :: "result_member list"
  ag_validate :: "string \<Rightarrow> tool_args \<Rightarrow> error_details list + 'v"
  ag_result_validator :: "'v data \<Rightarrow> string + 'v data"
  ag_max_retries :: nat
  ag_list_names :: "string list \<Rightarrow> string"

text \<open>
  Modelled from the spec: the model adapter's \<^verbatim>\<open>request(history)\<close>, a response (text or
  structured, with its timestamp) and its cost (section 4.1).
\<close>

datatype model_any_response = AnyText string int | AnyStructured "tool_call list" int

fun response_message :: "model_any_response \<Rightarrow> message" where
  "response_message (AnyText c ts) = ModelTextResponse c ts"
| "response_message (AnyStructured calls ts) = ModelStructuredResponse calls ts"

type_synonym model = "message list \<Rightarrow> model_any_response \<times> cost"

text \<open>
  Modelled from the spec: the decimal digits of the number \<^verbatim>\<open><N>\<close> in the retry-limit
  message.
\<close>

fun show_nat :: "nat \<Rightarrow> string" where
  "show_nat n =
     (if n < 10 then [''0123456789'' ! n]
      else show_nat (n div 10) @ [''0123456789'' ! (n mod 10)])"

text \<open>
  Modelled from the spec: the retry counter (section 4.4).  A recoverable failure takes
  one retry slot; beyond the configured maximum the run is fatal with
  \<^verbatim>\<open>Exceeded maximum retries (<N>) for result validation\<close>.  The tests show the limit is
  checked before the retry prompt is appended (\<^verbatim>\<open>test_unknown_tool\<close>).
\<close>

definition incr_result_retry :: "'v agent \<Rightarrow> nat \<Rightarrow> string + nat" where
  "incr_result_retry ag retries =
     (if ag_max_retries ag < Suc retries
      then Inl (''Exceeded maximum retries ('' @ show_nat (ag_max_retries ag)
                 @ '') for result validation'')
      else Inr (Suc retries))"

text \<open>
  Modelled from the spec: the retry prompt for a tool name that matches neither a
  function tool nor a result tool (section 4.4); it is addressed to no tool.
\<close>

definition tool_names :: "'v agent \<Rightarrow> string list" where
  "tool_names ag =
     map fst (ag_function_tools ag) @ map rt_name (result_tools (ag_result_type ag))"

definition unknown_tool_content :: "'v agent \<Rightarrow> string \<Rightarrow> string" where
  "unknown_tool_content ag nm =
     ''Unknown tool name: '' @ [CHR 0x27] @ nm @ [CHR 0x27] @ ''. ''
       @ (if tool_names ag \<noteq> [] then ag_list_names ag (tool_names ag)
          else ''No tools available.'')"

definition unknown_tool :: "'v agent \<Rightarrow> string \<Rightarrow> message" where
  "unknown_tool ag nm = RetryPrompt (RetryText (unknown_tool_content ag nm)) None None"

text \<open>
  Modelled from the spec: what handling one tool call gives (section 4.4): a message to
  append with the retry counter after it, the final data with the closing tool return, or
  a fatal error.
\<close>

datatype 'v step = Appended nat message | Final "'v data" message | Failed string

definition retry_with :: "'v agent \<Rightarrow> nat \<Rightarrow> message \<Rightarrow> 'v step" where
  "retry_with ag retries m =
     (case incr_result_retry ag retries of
        Inl e \<Rightarrow> Failed e
      | Inr r \<Rightarrow> Appended r m)"

definition handle_call :: "'v agent \<Rightarrow> nat \<Rightarrow> tool_call \<Rightarrow> 'v step" where
  "handle_call ag retries call =
     (case map_of (ag_function_tools ag) (tool_name call) of
        Some f \<Rightarrow>
          (case f (args call) of
             Inr c \<Rightarrow> Appended retries (ToolReturn (tool_name call) c (tool_call_id call))
           | Inl m \<Rightarrow>
               retry_with ag retries
                 (RetryPrompt (RetryText m) (Some (tool_name call)) (tool_call_id call)))
      | None \<Rightarrow>
          (case find_tool (result_tools (ag_result_type ag)) (tool_name call) of
             Some t \<Rightarrow>
               (case ag_validate ag (rt_type t) (args call) of
                  Inl errs \<Rightarrow>
                    retry_with ag retries
                      (RetryPrompt (RetryErrors errs) (Some (tool_name call)) (tool_call_id call))
                | Inr v \<Rightarrow>
                    (case ag_result_validator ag (Value v) of
                       Inl m \<Rightarrow>
                         retry_with ag retries
                           (RetryPrompt (RetryText m) (Some (tool_name call)) (tool_call_id call))
                     | Inr d \<Rightarrow>
                         Final d (ToolReturn (tool_name call) ''Final result processed.''
                                    (tool_call_id call))))
           | None \<Rightarrow> retry_with ag retries (unknown_tool ag (tool_name call))))"

text \<open>
  Modelled from the spec: what handling one response gives: the run goes on with a new
  retry counter, ends with data, or is fatal; each with the messages appended so far.
  The calls of a structured response are handled in their listed order.
\<close>

datatype 'v handled =
    Loop nat "message list"
  | HDone "'v data" "message list"
  | HFatal string "message list"

fun handle_calls :: "'v agent \<Rightarrow> nat \<Rightarrow> tool_call list \<Rightarrow> message list \<Rightarrow> 'v handled" where
  "handle_calls ag retries [] acc = Loop retries acc"
| "handle_calls ag retries (c # cs) acc =
     (case handle_call ag retries c of
        Appended r m \<Rightarrow> handle_calls ag r cs (acc @ [m])
      | Final d m \<Rightarrow> HDone d (acc @ [m])
      | Failed e \<Rightarrow> HFatal e acc)"

definition handle_response :: "'v agent \<Rightarrow> nat \<Rightarrow> model_any_response \<Rightarrow> 'v handled" where
  "handle_response ag retries response =
     (case response of
        AnyText c ts \<Rightarrow>
          (if allow_text (ag_result_type ag)
           then (case ag_result_validator ag (Text c) of
                   Inr d \<Rightarrow> HDone d []
                 | Inl m \<Rightarrow>
                     (case incr_result_retry ag retries of
                        Inl e \<Rightarrow> HFatal e []
                      | Inr r \<Rightarrow> Loop r [RetryPrompt (RetryText m) None None]))
           else (case incr_result_retry ag retries of
                   Inl e \<Rightarrow> HFatal e []
                 | Inr r \<Rightarrow>
                     Loop r [RetryPrompt (RetryText
                       ''Plain text responses are not permitted, please call one of the functions instead.'')
                       None None]))
      | AnyStructured calls ts \<Rightarrow>
          (if calls = [] then HFatal ''Received empty tool call message'' []
           else handle_calls ag retries calls []))"

text \<open>
  Modelled from the spec: history bootstrapping (section 4.4).  The configured system
  prompts are put in front of the supplied history only if that history contains no
  \<^verbatim>\<open>SystemPrompt\<close>; the index of the first new message is taken after that, as the
  snapshots of \<^verbatim>\<open>test_run_with_history_new\<close> show (a history of four messages without a
  system prompt gives \<^verbatim>\<open>_new_message_index=5\<close>); then the user prompt is appended.
\<close>

fun is_system :: "message \<Rightarrow> bool" where
  "is_system (SystemPrompt _) = True"
| "is_system _ = False"

definition init_messages :: "'v agent \<Rightarrow> message list" where
  "init_messages ag = map SystemPrompt (ag_system_prompts ag)"

definition prepare_messages :: "'v agent \<Rightarrow> string \<Rightarrow> message list \<Rightarrow> nat \<times> message list" where
  "prepare_messages ag user_prompt message_history =
     (let messages = (if list_ex is_system message_history then message_history
                      else init_messages ag @ message_history);
          idx = length messages
      in (idx, messages @ [UserPrompt user_prompt]))"

text \<open>
  Modelled from the spec: the states of the run loop (section 4.4).  A run ends in
  \<open>Done\<close> with its result or in \<open>Fatal\<close> with the error and the history so far; a model
  that keeps calling function tools never ends, so the loop takes the number of model
  requests it may make and reports \<open>OutOfFuel\<close> beyond it.
\<close>

datatype 'v run_outcome = Done "'v run_result" | Fatal string "message list" | OutOfFuel

fun run_loop ::
  "nat \<Rightarrow> 'v agent \<Rightarrow> model \<Rightarrow> nat \<Rightarrow> message list \<Rightarrow> cost \<Rightarrow> nat \<Rightarrow> 'v run_outcome" where
  "run_loop 0 ag model idx messages cost retries = OutOfFuel"
| "run_loop (Suc fuel) ag model idx messages cost retries =
     (case model messages of (response, request_cost) \<Rightarrow>
        (let messages1 = messages @ [response_message response];
             cost1 = cost_add cost request_cost
         in case handle_response ag retries response of
              HDone d msgs \<Rightarrow>
                Done \<lparr>all_messages = messages1 @ msgs, new_message_index = idx,
                      result_data = d, run_cost = cost1\<rparr>
            | HFatal e msgs \<Rightarrow> Fatal e (messages1 @ msgs)
            | Loop r msgs \<Rightarrow> run_loop fuel ag model idx (messages1 @ msgs) cost1 r))"

definition run ::
  "nat \<Rightarrow> 'v agent \<Rightarrow> model \<Rightarrow> string \<Rightarrow> message list \<Rightarrow> 'v run_outcome" where
  "run fuel ag model user_prompt message_history =
     (case prepare_messages ag user_prompt message_history of
        (idx, messages) \<Rightarrow> run_loop fuel ag model idx messages Cost 0)"

text \<open>
  Modelled from the spec: the system prompts the bootstrap puts in front of a supplied
  history (section 4.4): the configured ones when the history contains none, else none.
\<close>

definition inserted_prompts :: "'v agent \<Rightarrow> message list \<Rightarrow> message list" where
  "inserted_prompts ag message_history =
     (if list_ex is_system message_history then [] else init_messages ag)"

text \<open>
  Modelled from the spec: the wording of the retry-limit error (section 4.4), and what it
  means for a tool name to match neither a function tool nor a result tool.
\<close>

definition retry_limit_message :: "nat \<Rightarrow> string" where
  "retry_limit_message n =
     ''Exceeded maximum retries ('' @ show_nat n @ '') for result validation''"

definition unknown_name :: "'v agent \<Rightarrow> string \<Rightarrow> bool" where
  "unknown_name ag nm =
     (map_of (ag_function_tools ag) nm = None
      \<and> find_tool (result_tools (ag_result_type ag)) nm = None)"



section \<open>Concrete inputs\<close>

text \<open>
  A completion carrying both text and a tool call, one carrying only text, and one
  carrying neither.
\<close>

definition completion_both :: chat_completion where
  "completion_both =
     \<lparr>cc_created = 1700000000,
      cc_choices = [\<lparr>cm_content = Some ''thinking'',
                     cm_tool_calls = Some [\<lparr>ct_id = ''call_1'',
                        ct_function = \<lparr>cf_name = ''final_result'', cf_arguments = ''{}''\<rparr>\<rparr>]\<rparr>],
      cc_usage = None\<rparr>"

definition completion_text :: chat_completion where
  "completion_text =
     \<lparr>cc_created = 1700000000,
      cc_choices = [\<lparr>cm_content = Some ''hello'', cm_tool_calls = None\<rparr>],
      cc_usage = None\<rparr>"

definition completion_neither :: chat_completion where
  "completion_neither =
     \<lparr>cc_created = 1700000000,
      cc_choices = [\<lparr>cm_content = None, cm_tool_calls = None\<rparr>],
      cc_usage = None\<rparr>"

text \<open>A result tool as the tests declare it, for the requests built below.\<close>

definition final_result_tool :: tool_definition where
  "final_result_tool =
     \<lparr>name = ''final_result'',
      description = ''The final response which ends this conversation'',
      parameters_json_schema = JObj [(''type'', JStr ''object'')],
      outer_typed_dict_key = None\<rparr>"

text \<open>
  An in-progress map with one complete call, one without a name, one without a function
  and one without arguments.
\<close>

definition in_progress :: "(int \<times> delta_tool_call) list" where
  "in_progress =
     [(0, \<lparr>tc_index = 0, tc_id = Some ''call_0'',
           tc_function = Some \<lparr>fn_arguments = Some ''{}'', fn_name = Some ''get_weather''\<rparr>\<rparr>),
      (1, \<lparr>tc_index = 1, tc_id = Some ''call_1'',
           tc_function = Some \<lparr>fn_arguments = Some ''{}'', fn_name = None\<rparr>\<rparr>),
      (2, \<lparr>tc_index = 2, tc_id = Some ''call_2'', tc_function = None\<rparr>),
      (3, \<lparr>tc_index = 3, tc_id = None,
           tc_function = Some \<lparr>fn_arguments = None, fn_name = Some ''final_result''\<rparr>\<rparr>)]"

text \<open>
  The streamed call of the spec's example: the first delta of index 0 names the tool,
  later deltas deliver the argument text in fragments.
\<close>

definition fragment :: "int \<Rightarrow> string \<Rightarrow> delta_tool_call" where
  "fragment i a =
     \<lparr>tc_index = i, tc_id = None,
      tc_function = Some \<lparr>fn_arguments = Some a, fn_name = None\<rparr>\<rparr>"

definition first_delta :: delta_tool_call where
  "first_delta =
     \<lparr>tc_index = 0, tc_id = Some ''call_0'',
      tc_function = Some \<lparr>fn_arguments = Some '''', fn_name = Some ''final_result''\<rparr>\<rparr>"

definition partial_delta :: delta_tool_call where
  "partial_delta =
     \<lparr>tc_index = 0, tc_id = Some ''call_0'',
      tc_function = Some \<lparr>fn_arguments = Some ''{\"a\": 4'', fn_name = Some ''final_result''\<rparr>\<rparr>"

definition tool_chunk :: "delta_tool_call list \<Rightarrow> chunk" where
  "tool_chunk tcs =
     \<lparr>created = 1700000000,
      choices = [\<lparr>delta = \<lparr>content = None, tool_calls = Some tcs\<rparr>, finish_reason = None\<rparr>],
      chunk_usage = None\<rparr>"

definition accumulating :: stream_structured_response where
  "accumulating =
     \<lparr>ss_response = [tool_chunk [fragment 0 ''{\"a\": 4''], tool_chunk [fragment 0 ''2}'']],
      ss_delta_tool_calls = [(0, first_delta)],
      ss_timestamp = 1700000000, ss_cost = Cost\<rparr>"

text \<open>
  Chunks of a stream: a heartbeat that only reports usage, a chunk whose delta carries
  neither content nor tool calls, a text chunk, and a chunk whose list of tool-call deltas
  is empty.
\<close>

definition heartbeat :: chunk where
  "heartbeat =
     \<lparr>created = 100, choices = [],
      chunk_usage = Some \<lparr>prompt_tokens = 7, completion_tokens = 0, usage_total_tokens = 7,
                          completion_tokens_details = None, prompt_tokens_details = None\<rparr>\<rparr>"

definition role_chunk :: chunk where
  "role_chunk =
     \<lparr>created = 100,
      choices = [\<lparr>delta = \<lparr>content = None, tool_calls = None\<rparr>, finish_reason = None\<rparr>],
      chunk_usage = None\<rparr>"

definition text_chunk :: chunk where
  "text_chunk =
     \<lparr>created = 200,
      choices = [\<lparr>delta = \<lparr>content = Some ''hi'', tool_calls = None\<rparr>, finish_reason = None\<rparr>],
      chunk_usage = Some \<lparr>prompt_tokens = 0, completion_tokens = 1, usage_total_tokens = 1,
                          completion_tokens_details = None, prompt_tokens_details = None\<rparr>\<rparr>"

definition empty_tool_calls_chunk :: chunk where
  "empty_tool_calls_chunk =
     \<lparr>created = 100,
      choices = [\<lparr>delta = \<lparr>content = None, tool_calls = Some []\<rparr>, finish_reason = None\<rparr>],
      chunk_usage = None\<rparr>"

text \<open>
  The agents, models and histories of \<^verbatim>\<open>test_run_with_history_new\<close>,
  \<^verbatim>\<open>test_unknown_tool\<close> and \<^verbatim>\<open>test_unknown_tool_fix\<close>: an agent with the system prompt
  \<^verbatim>\<open>'Foobar'\<close> and the tool \<^verbatim>\<open>ret_a\<close>, and an agent with neither; a model that calls
  \<^verbatim>\<open>ret_a\<close> and then answers in text, a model that always calls the unknown tool
  \<^verbatim>\<open>foobar\<close>, and one that answers \<^verbatim>\<open>'success'\<close> once it has been corrected; the new
  messages of a first run, and the results the tests expect.
\<close>

definition ret_a :: "tool_args \<Rightarrow> string + string" where
  "ret_a a =
     (case a of
        ArgsDict [(k, JStr x)] \<Rightarrow> if k = ''x'' then Inr (x @ ''-apple'') else Inl ''missing x''
      | _ \<Rightarrow> Inl ''missing x'')"

definition names_line :: "string list \<Rightarrow> string" where
  "names_line ns = ''Available tools: '' @ concat (map (\<lambda>n. n @ '' '') ns)"

definition foobar_agent :: "json agent" where
  "foobar_agent =
     \<lparr>ag_system_prompts = [''Foobar''],
      ag_function_tools = [(''ret_a'', ret_a)],
      ag_result_type = [PlainText],
      ag_validate = (\<lambda>t a. Inl []),
      ag_result_validator = Inr,
      ag_max_retries = 1,
      ag_list_names = names_line\<rparr>"

definition plain_agent :: "json agent" where
  "plain_agent =
     \<lparr>ag_system_prompts = [],
      ag_function_tools = [],
      ag_result_type = [PlainText],
      ag_validate = (\<lambda>t a. Inl []),
      ag_result_validator = Inr,
      ag_max_retries = 1,
      ag_list_names = names_line\<rparr>"

definition test_model :: model where
  "test_model msgs =
     (if list_ex (\<lambda>m. case m of ToolReturn _ _ _ \<Rightarrow> True | _ \<Rightarrow> False) msgs
      then (AnyText ''{\"ret_a\":\"a-apple\"}'' 0, Cost)
      else (AnyStructured
              [\<lparr>tool_name = ''ret_a'', args = ArgsDict [(''x'', JStr ''a'')], tool_call_id = None\<rparr>] 0,
            Cost))"

definition first_run_messages :: "message list" where
  "first_run_messages =
     [UserPrompt ''Hello'',
      ModelStructuredResponse
        [\<lparr>tool_name = ''ret_a'', args = ArgsDict [(''x'', JStr ''a'')], tool_call_id = None\<rparr>] 0,
      ToolReturn ''ret_a'' ''a-apple'' None,
      ModelTextResponse ''{\"ret_a\":\"a-apple\"}'' 0]"

definition unknown_model :: model where
  "unknown_model msgs = (AnyStructured [from_json ''foobar'' ''{}'' None] 0, Cost)"

definition fix_model :: model where
  "fix_model msgs =
     (if 1 < length msgs then (AnyText ''success'' 0, Cost)
      else (AnyStructured [from_json ''foobar'' ''{}'' None] 0, Cost))"

definition second_run_result :: "json run_result" where
  "second_run_result =
     \<lparr>all_messages = SystemPrompt ''Foobar'' # first_run_messages
        @ [UserPrompt ''Hello again'', ModelTextResponse ''{\"ret_a\":\"a-apple\"}'' 0],
      new_message_index = 5,
      result_data = Text ''{\"ret_a\":\"a-apple\"}'',
      run_cost = Cost\<rparr>"

definition fixed_run_result :: "json run_result" where
  "fixed_run_result =
     \<lparr>all_messages =
        [UserPrompt ''Hello'',
         ModelStructuredResponse [from_json ''foobar'' ''{}'' None] 0,
         RetryPrompt (RetryText (''Unknown tool name: '' @ [CHR 0x27] @ ''foobar'' @ [CHR 0x27]
                        @ ''. No tools available.'')) None None,
         ModelTextResponse ''success'' 0],
      new_message_index = 0,
      result_data = Text ''success'',
      run_cost = Cost\<rparr>"




text \<open>
  A completion and a heartbeat whose \<^verbatim>\<open>created\<close> value is in milliseconds, far beyond
  the year 9999 when read as seconds.
\<close>

definition completion_milliseconds :: chat_completion where
  "completion_milliseconds =
     \<lparr>cc_created = 1700000000000,
      cc_choices = [\<lparr>cm_content = None,
                     cm_tool_calls = Some [\<lparr>ct_id = ''call_1'',
                        ct_function = \<lparr>cf_name = ''final_result'', cf_arguments = ''{}''\<rparr>\<rparr>]\<rparr>],
      cc_usage = None\<rparr>"

definition millisecond_heartbeat :: chunk where
  "millisecond_heartbeat = \<lparr>created = 1700000000000, choices = [], chunk_usage = None\<rparr>"

text \<open>
  A chunk that carries a finish marker together with a delta of the unseen index 1, and
  an accumulator about to read it.
\<close>

definition finish_chunk :: chunk where
  "finish_chunk =
     \<lparr>created = 1700000000,
      choices = [\<lparr>delta = \<lparr>content = None, tool_calls = Some [fragment 1 ''{}'']\<rparr>,
                  finish_reason = Some ''tool_calls''\<rparr>],
      chunk_usage = None\<rparr>"

definition finishing :: stream_structured_response where
  "finishing =
     \<lparr>ss_response = [finish_chunk],
      ss_delta_tool_calls = [(0, first_delta)],
      ss_timestamp = 1700000000, ss_cost = Cost\<rparr>"

text \<open>
  A chunk that carries text content together with a delta of the unseen index 1, and an
  accumulator about to read it.
\<close>

definition content_chunk :: chunk where
  "content_chunk =
     \<lparr>created = 1700000000,
      choices = [\<lparr>delta = \<lparr>content = Some ''hi'', tool_calls = Some [fragment 1 ''{}'']\<rparr>,
                  finish_reason = None\<rparr>],
      chunk_usage = None\<rparr>"

definition interrupted :: stream_structured_response where
  "interrupted =
     \<lparr>ss_response = [content_chunk],
      ss_delta_tool_calls = [(0, first_delta)],
      ss_timestamp = 1700000000, ss_cost = Cost\<rparr>"


section \<open>Properties of the request side\<close>

lemma agent_model_tools_empty:
  "agent_model allow nm ft atr rt = Inr am \<Longrightarrow> (tools am = []) = (ft = [] \<and> rt = [])"
  by (auto simp: agent_model_def check_allow_model_requests_def split: if_splits)

lemma agent_model_allow_text:
  "agent_model allow nm ft atr rt = Inr am \<Longrightarrow> allow_text_result am = atr"
  by (auto simp: agent_model_def check_allow_model_requests_def split: if_splits)

lemma completions_create_choice:
  "completions_create rr am msgs st = Inr req \<Longrightarrow>
   req_tool_choice req =
     (if tools am = [] then None
      else if \<not> allow_text_result am then Some ''required'' else Some ''auto'')"
  by (auto simp: completions_create_def Let_def split: sum.splits)

text \<open>
  Claim C9.  Every request the adapter builds carries no \<^verbatim>\<open>tool_choice\<close> when neither
  function tools nor result tools are declared, \<^verbatim>\<open>tool_choice = 'required'\<close> when tools are
  declared and plain-text results are not allowed, and \<^verbatim>\<open>tool_choice = 'auto'\<close> otherwise.
\<close>

theorem request_tool_choice:
  assumes "agent_model allow nm ft atr rt = Inr am"
    and "completions_create rr am msgs st = Inr req"
  shows "req_tool_choice req =
     (if ft = [] \<and> rt = [] then None
      else if \<not> atr then Some ''required'' else Some ''auto'')"
  using completions_create_choice [OF assms(2)]
    agent_model_tools_empty [OF assms(1)] agent_model_allow_text [OF assms(1)]
  by simp

theorem request_tool_choice_witness:
  "(\<exists>am req. agent_model True ''gpt-4o'' [] False [final_result_tool] = Inr am
        \<and> completions_create (\<lambda>c. ''retry'') am [UserPrompt ''Hello''] False = Inr req
        \<and> req_tool_choice req = Some ''required'')
   \<and> (\<exists>am req. agent_model True ''gpt-4o'' [] True [final_result_tool] = Inr am
        \<and> completions_create (\<lambda>c. ''retry'') am [UserPrompt ''Hello''] False = Inr req
        \<and> req_tool_choice req = Some ''auto'')
   \<and> (\<exists>am req. agent_model True ''gpt-4o'' [] True [] = Inr am
        \<and> completions_create (\<lambda>c. ''retry'') am [UserPrompt ''Hello''] True = Inr req
        \<and> req_tool_choice req = None)"
proof -
  let ?rr = "(\<lambda>c. ''retry'') :: retry_content \<Rightarrow> string"
  let ?tools = "[map_tool_definition final_result_tool]"
  let ?am1 = "\<lparr>model_name = ''gpt-4o'', allow_text_result = False, tools = ?tools\<rparr>"
  let ?am2 = "\<lparr>model_name = ''gpt-4o'', allow_text_result = True, tools = ?tools\<rparr>"
  let ?am3 = "\<lparr>model_name = ''gpt-4o'', allow_text_result = True, tools = []\<rparr>"
  have a1: "agent_model True ''gpt-4o'' [] False [final_result_tool] = Inr ?am1"
    and a2: "agent_model True ''gpt-4o'' [] True [final_result_tool] = Inr ?am2"
    and a3: "agent_model True ''gpt-4o'' [] True [] = Inr ?am3"
    by (simp_all add: agent_model_def check_allow_model_requests_def)
  obtain r1 where c1: "completions_create ?rr ?am1 [UserPrompt ''Hello''] False = Inr r1"
    by (simp add: completions_create_def)
  obtain r2 where c2: "completions_create ?rr ?am2 [UserPrompt ''Hello''] False = Inr r2"
    by (simp add: completions_create_def)
  obtain r3 where c3: "completions_create ?rr ?am3 [UserPrompt ''Hello''] True = Inr r3"
    by (simp add: completions_create_def)
  have "req_tool_choice r1 = Some ''required''"
    using request_tool_choice [OF a1 c1] by simp
  moreover have "req_tool_choice r2 = Some ''auto''"
    using request_tool_choice [OF a2 c2] by simp
  moreover have "req_tool_choice r3 = None"
    using request_tool_choice [OF a3 c3] by simp
  ultimately show ?thesis
    using a1 a2 a3 c1 c2 c3 by blast
qed

section \<open>Properties of the response side\<close>

lemma process_response_out_of_range:
  "\<not> valid_timestamp (cc_created response) \<Longrightarrow>
   process_response response = Inl TimestampOutOfRange"
  by (simp add: process_response_def fromtimestamp_def)

text \<open>
  Claim C10, as amended.  In a non-streamed response whose \<^verbatim>\<open>created\<close> value is a valid
  timestamp, a \<^verbatim>\<open>tool_calls\<close> list that is not \<^verbatim>\<open>None\<close> on the choice message takes
  precedence: the result is the structured response built from those calls, whatever text
  comes with it; a text response is returned only when \<^verbatim>\<open>tool_calls\<close> is \<^verbatim>\<open>None\<close>; with
  neither tool calls nor content the assertion fails and no value is produced.
\<close>

theorem process_response_precedence:
  assumes "valid_timestamp (cc_created response)"
    and "cc_choices response = choice # others"
  shows "(\<forall>tcs. cm_tool_calls choice = Some tcs \<longrightarrow>
            process_response response =
              Inr (ModelStructuredResponse
                    (map (\<lambda>c. from_json (cf_name (ct_function c)) (cf_arguments (ct_function c))
                                 (Some (ct_id c))) tcs)
                    (cc_created response)))
       \<and> (\<forall>c. cm_tool_calls choice = None \<and> cm_content choice = Some c \<longrightarrow>
            process_response response = Inr (ModelTextResponse c (cc_created response)))
       \<and> (cm_tool_calls choice = None \<and> cm_content choice = None \<longrightarrow>
            (\<exists>m. process_response response = Inl (AssertionError m)))
       \<and> (\<forall>c ts. process_response response = Inr (ModelTextResponse c ts) \<longrightarrow>
            cm_tool_calls choice = None)"
  using assms by (auto simp: process_response_def fromtimestamp_def split: option.splits)

theorem process_response_precedence_witness:
  "process_response completion_both =
     Inr (ModelStructuredResponse [from_json ''final_result'' ''{}'' (Some ''call_1'')] 1700000000)
   \<and> process_response completion_text = Inr (ModelTextResponse ''hello'' 1700000000)
   \<and> (\<exists>m. process_response completion_neither = Inl (AssertionError m))"
proof -
  have valid: "valid_timestamp 1700000000"
    by (simp add: valid_timestamp_def)
  show ?thesis
    using process_response_precedence [of completion_both
          "\<lparr>cm_content = Some ''thinking'',
            cm_tool_calls = Some [\<lparr>ct_id = ''call_1'',
              ct_function = \<lparr>cf_name = ''final_result'', cf_arguments = ''{}''\<rparr>\<rparr>]\<rparr>" "[]"]
      process_response_precedence [of completion_text
          "\<lparr>cm_content = Some ''hello'', cm_tool_calls = None\<rparr>" "[]"]
      process_response_precedence [of completion_neither
          "\<lparr>cm_content = None, cm_tool_calls = None\<rparr>" "[]"]
      valid
    by (simp add: completion_both_def completion_text_def completion_neither_def)
qed

text \<open>
  The claim as stated fails for a \<^verbatim>\<open>created\<close> value out of range, such as one given in
  milliseconds: the conversion of the timestamp raises before the choice is read, and a
  response that carries tool calls gives no structured response.
\<close>

theorem millisecond_created_raises:
  "cc_choices completion_milliseconds =
     [\<lparr>cm_content = None,
       cm_tool_calls = Some [\<lparr>ct_id = ''call_1'',
          ct_function = \<lparr>cf_name = ''final_result'', cf_arguments = ''{}''\<rparr>\<rparr>]\<rparr>]
   \<and> process_response completion_milliseconds = Inl TimestampOutOfRange"
  by (simp add: completion_milliseconds_def process_response_def fromtimestamp_def
      valid_timestamp_def)

section \<open>Properties of the structured accumulator\<close>

lemma merge_delta_unseen:
  "map_of calls (tc_index new) = None \<Longrightarrow>
   map_of (merge_delta calls new) (tc_index new) = Some new"
  by (simp add: merge_delta_def update_conv')

lemma merge_delta_seen:
  assumes "map_of calls (tc_index new) = Some cur"
    and "tc_function cur = Some cf" and "tc_function new = Some nf"
  shows "map_of (merge_delta calls new) (tc_index new) =
      Some (cur\<lparr>tc_function := Some
              \<lparr>fn_arguments = add_optional (fn_arguments cf) (fn_arguments nf),
               fn_name = add_optional (fn_name cf) (fn_name nf)\<rparr>\<rparr>)"
  using assms by (simp add: merge_delta_def update_conv')

lemma merge_delta_no_function:
  assumes "map_of calls (tc_index new) = Some cur" and "tc_function cur = None"
  shows "map_of (merge_delta calls new) (tc_index new) =
      Some (cur\<lparr>tc_function := tc_function new\<rparr>)"
  using assms by (simp add: merge_delta_def update_conv')

lemma merge_delta_other:
  "j \<noteq> tc_index new \<Longrightarrow> map_of (merge_delta calls new) j = map_of calls j"
  by (simp add: merge_delta_def update_conv' split: option.splits)

lemma add_optional_None_right: "add_optional x None = x"
  by (cases x) simp_all

lemma update_new_key: "k \<notin> fst ` set al \<Longrightarrow> AList.update k v al = al @ [(k, v)]"
  by (induction al) auto

lemma merge_delta_appended:
  assumes "map_of calls (tc_index new) = None"
  shows "merge_delta calls new = calls @ [(tc_index new, new)]"
proof -
  from assms have "tc_index new \<notin> fst ` set calls"
    by (simp add: map_of_eq_None_iff)
  then have "AList.update (tc_index new) new calls = calls @ [(tc_index new, new)]"
    by (rule update_new_key)
  with assms show ?thesis
    by (simp add: merge_delta_def)
qed

lemma merge_delta_keys:
  assumes "map_of calls (tc_index new) = Some cur"
  shows "map fst (merge_delta calls new) = map fst calls"
proof -
  from assms have "tc_index new \<in> set (map fst calls)"
    using map_of_eq_None_iff [of calls "tc_index new"] by auto
  then have "map fst (AList.update (tc_index new) v calls) = map fst calls" for v
    by (simp add: update_keys)
  with assms show ?thesis
    by (simp add: merge_delta_def split: option.splits)
qed

lemma structured_anext_content:
  assumes "ss_response self = chunk # rest" and "choices chunk = choice # others"
    and "finish_reason choice = None" and "content (delta choice) \<noteq> None"
  shows "structured_anext self =
     (Raised (AssertionError ''Expected tool calls, got content instead''),
      self\<lparr>ss_response := rest,
           ss_cost := cost_add (ss_cost self) (map_cost (chunk_usage chunk))\<rparr>)"
  using assms by (auto simp: structured_anext_def Let_def)

lemma structured_anext_merges:
  assumes "ss_response self = chunk # rest" and "choices chunk = choice # others"
    and "finish_reason choice = None" and "content (delta choice) = None"
  shows "structured_anext self =
     (Returned,
      self\<lparr>ss_response := rest,
           ss_cost := cost_add (ss_cost self) (map_cost (chunk_usage chunk)),
           ss_delta_tool_calls :=
             fold (\<lambda>new calls. merge_delta calls new)
               (case tool_calls (delta choice) of None \<Rightarrow> [] | Some tcs \<Rightarrow> tcs)
               (ss_delta_tool_calls self)\<rparr>)"
  using assms by (simp add: structured_anext_def Let_def)

lemma structured_anext_finish:
  assumes "ss_response self = chunk # rest" and "choices chunk = choice # others"
    and "finish_reason choice \<noteq> None"
  shows "structured_anext self =
     (StopAsyncIteration,
      self\<lparr>ss_response := rest,
           ss_cost := cost_add (ss_cost self) (map_cost (chunk_usage chunk))\<rparr>)"
  using assms by (auto simp: structured_anext_def Let_def)

lemma index_deltas_snoc:
  "index_deltas (tcs @ [c]) = AList.update (tc_index c) c (index_deltas tcs)"
  by (simp add: index_deltas_def)

lemma index_deltas_keys: "fst ` set (index_deltas tcs) = tc_index ` set tcs"
proof (induction tcs rule: rev_induct)
  case Nil
  then show ?case by (simp add: index_deltas_def)
next
  case (snoc c tcs)
  have "fst ` set (AList.update (tc_index c) c (index_deltas tcs)) =
      insert (tc_index c) (fst ` set (index_deltas tcs))"
    using dom_update [of "tc_index c" c "index_deltas tcs"] by simp
  with snoc show ?case
    by (simp add: index_deltas_snoc)
qed

lemma index_deltas_distinct:
  "distinct (map tc_index tcs) \<Longrightarrow> index_deltas tcs = map (\<lambda>c. (tc_index c, c)) tcs"
proof (induction tcs rule: rev_induct)
  case Nil
  then show ?case by (simp add: index_deltas_def)
next
  case (snoc c tcs)
  then have d: "distinct (map tc_index tcs)" and new: "tc_index c \<notin> tc_index ` set tcs"
    by simp_all
  from new have "tc_index c \<notin> fst ` set (index_deltas tcs)"
    by (simp add: index_deltas_keys)
  then have "AList.update (tc_index c) c (index_deltas tcs) =
      index_deltas tcs @ [(tc_index c, c)]"
    by (rule update_new_key)
  with snoc.IH [OF d] show ?case
    by (simp add: index_deltas_snoc)
qed

text \<open>
  Claim C1, as amended.  A call of \<^verbatim>\<open>__anext__\<close> on a chunk that has a choice, no finish
  marker and no text content merges every tool-call delta of that chunk, in order, into
  the in-progress map.  For each of these deltas: an index not seen before is stored in
  the map under that index; for an index seen before, whose stored delta and incoming
  delta both carry a function, a present incoming name or argument fragment is appended
  to the stored one (stored text first, incoming text after it, the stored text never
  dropped), and an absent one leaves the stored one as it is; a stored delta without a
  function takes the incoming function; the other indices are untouched and the order of
  the map is kept.  The deltas of the bootstrap chunk are stored under their indices when
  these are distinct, and the deltas of a chunk with a finish marker or with text content
  are not merged.  In particular, with the name of
  index 0 known, the chunks delivering the argument fragments \<^verbatim>\<open>{"a": 4\<close> and \<^verbatim>\<open>2}\<close> are
  materialized as the arguments \<^verbatim>\<open>{"a": 42}\<close>.
\<close>

theorem anext_merges_every_delta:
  "(\<forall>chunk rest choice others.
        ss_response self = chunk # rest \<and> choices chunk = choice # others
        \<and> finish_reason choice = None \<and> content (delta choice) = None \<longrightarrow>
        structured_anext self =
          (Returned,
           self\<lparr>ss_response := rest,
                ss_cost := cost_add (ss_cost self) (map_cost (chunk_usage chunk)),
                ss_delta_tool_calls :=
                  fold (\<lambda>new calls. merge_delta calls new)
                    (case tool_calls (delta choice) of None \<Rightarrow> [] | Some tcs \<Rightarrow> tcs)
                    (ss_delta_tool_calls self)\<rparr>))
   \<and> (map_of calls (tc_index new) = None \<longrightarrow>
        merge_delta calls new = calls @ [(tc_index new, new)]
        \<and> map_of (merge_delta calls new) (tc_index new) = Some new)
   \<and> (\<forall>cur. map_of calls (tc_index new) = Some cur \<longrightarrow>
        map fst (merge_delta calls new) = map fst calls)
   \<and> (\<forall>cur cf nf.
        map_of calls (tc_index new) = Some cur \<and> tc_function cur = Some cf
          \<and> tc_function new = Some nf \<longrightarrow>
        (\<exists>cf'. map_of (merge_delta calls new) (tc_index new) = Some (cur\<lparr>tc_function := Some cf'\<rparr>)
           \<and> (\<forall>a b. fn_name cf = Some a \<and> fn_name nf = Some b \<longrightarrow> fn_name cf' = Some (a @ b))
           \<and> (\<forall>a b. fn_arguments cf = Some a \<and> fn_arguments nf = Some b \<longrightarrow>
                  fn_arguments cf' = Some (a @ b))
           \<and> (fn_name nf = None \<longrightarrow> fn_name cf' = fn_name cf)
           \<and> (fn_arguments nf = None \<longrightarrow> fn_arguments cf' = fn_arguments cf)
           \<and> (fn_name cf = None \<longrightarrow> fn_name cf' = fn_name nf)
           \<and> (fn_arguments cf = None \<longrightarrow> fn_arguments cf' = fn_arguments nf)))
   \<and> (\<forall>cur. map_of calls (tc_index new) = Some cur \<and> tc_function cur = None \<longrightarrow>
        map_of (merge_delta calls new) (tc_index new) = Some (cur\<lparr>tc_function := tc_function new\<rparr>))
   \<and> (\<forall>cur. map_of calls (tc_index new) = Some cur \<and> tc_function cur \<noteq> None
          \<and> tc_function new = None \<longrightarrow>
        merge_delta calls new = calls)
   \<and> (\<forall>j. j \<noteq> tc_index new \<longrightarrow> map_of (merge_delta calls new) j = map_of calls j)
   \<and> (distinct (map tc_index tcs) \<longrightarrow> index_deltas tcs = map (\<lambda>c. (tc_index c, c)) tcs)
   \<and> (\<forall>chunk rest choice others.
        ss_response self = chunk # rest \<and> choices chunk = choice # others
        \<and> finish_reason choice \<noteq> None \<longrightarrow>
        structured_anext self =
          (StopAsyncIteration,
           self\<lparr>ss_response := rest,
                ss_cost := cost_add (ss_cost self) (map_cost (chunk_usage chunk))\<rparr>))
   \<and> (\<forall>chunk rest choice others.
        ss_response self = chunk # rest \<and> choices chunk = choice # others
        \<and> finish_reason choice = None \<and> content (delta choice) \<noteq> None \<longrightarrow>
        structured_anext self =
          (Raised (AssertionError ''Expected tool calls, got content instead''),
           self\<lparr>ss_response := rest,
                ss_cost := cost_add (ss_cost self) (map_cost (chunk_usage chunk))\<rparr>))
   \<and> (\<forall>self'.
        ss_response self = [tool_chunk [fragment 0 ''{\"a\": 4''], tool_chunk [fragment 0 ''2}'']]
        \<and> ss_delta_tool_calls self = [(0, first_delta)]
        \<and> snd (structured_anext (snd (structured_anext self))) = self' \<longrightarrow>
        structured_get self' =
          ModelStructuredResponse
            [\<lparr>tool_name = ''final_result'', args = ArgsJson ''{\"a\": 42}'',
              tool_call_id = Some ''call_0''\<rparr>]
            (ss_timestamp self))"
proof (intro conjI allI impI)
  fix chunk rest choice others
  assume "ss_response self = chunk # rest \<and> choices chunk = choice # others
        \<and> finish_reason choice = None \<and> content (delta choice) = None"
  then show "structured_anext self =
          (Returned,
           self\<lparr>ss_response := rest,
                ss_cost := cost_add (ss_cost self) (map_cost (chunk_usage chunk)),
                ss_delta_tool_calls :=
                  fold (\<lambda>new calls. merge_delta calls new)
                    (case tool_calls (delta choice) of None \<Rightarrow> [] | Some tcs \<Rightarrow> tcs)
                    (ss_delta_tool_calls self)\<rparr>)"
    by (simp add: structured_anext_merges)
next
  show "merge_delta calls new = calls @ [(tc_index new, new)]"
    if "map_of calls (tc_index new) = None"
    using that by (rule merge_delta_appended)
  show "map_of (merge_delta calls new) (tc_index new) = Some new"
    if "map_of calls (tc_index new) = None"
    using that by (rule merge_delta_unseen)
  show "map fst (merge_delta calls new) = map fst calls"
    if "map_of calls (tc_index new) = Some cur" for cur
    using that by (rule merge_delta_keys)
next
  fix cur cf nf
  assume h: "map_of calls (tc_index new) = Some cur \<and> tc_function cur = Some cf
          \<and> tc_function new = Some nf"
  let ?cf' = "\<lparr>fn_arguments = add_optional (fn_arguments cf) (fn_arguments nf),
              fn_name = add_optional (fn_name cf) (fn_name nf)\<rparr>"
  have m: "map_of (merge_delta calls new) (tc_index new) = Some (cur\<lparr>tc_function := Some ?cf'\<rparr>)"
    using h by (simp add: merge_delta_seen)
  show "\<exists>cf'. map_of (merge_delta calls new) (tc_index new) = Some (cur\<lparr>tc_function := Some cf'\<rparr>)
           \<and> (\<forall>a b. fn_name cf = Some a \<and> fn_name nf = Some b \<longrightarrow> fn_name cf' = Some (a @ b))
           \<and> (\<forall>a b. fn_arguments cf = Some a \<and> fn_arguments nf = Some b \<longrightarrow>
                  fn_arguments cf' = Some (a @ b))
           \<and> (fn_name nf = None \<longrightarrow> fn_name cf' = fn_name cf)
           \<and> (fn_arguments nf = None \<longrightarrow> fn_arguments cf' = fn_arguments cf)
           \<and> (fn_name cf = None \<longrightarrow> fn_name cf' = fn_name nf)
           \<and> (fn_arguments cf = None \<longrightarrow> fn_arguments cf' = fn_arguments nf)"
    using m by (intro exI [of _ ?cf']) (auto simp: add_optional_None_right)
next
  fix cur
  assume "map_of calls (tc_index new) = Some cur \<and> tc_function cur = None"
  then show "map_of (merge_delta calls new) (tc_index new) = Some (cur\<lparr>tc_function := tc_function new\<rparr>)"
    by (simp add: merge_delta_no_function)
next
  fix cur
  assume "map_of calls (tc_index new) = Some cur \<and> tc_function cur \<noteq> None
          \<and> tc_function new = None"
  then show "merge_delta calls new = calls"
    by (auto simp: merge_delta_def)
next
  fix j assume "j \<noteq> tc_index new"
  then show "map_of (merge_delta calls new) j = map_of calls j"
    by (rule merge_delta_other)
next
  show "index_deltas tcs = map (\<lambda>c. (tc_index c, c)) tcs" if "distinct (map tc_index tcs)"
    using that by (rule index_deltas_distinct)
next
  fix chunk rest choice others
  assume "ss_response self = chunk # rest \<and> choices chunk = choice # others
        \<and> finish_reason choice \<noteq> None"
  then show "structured_anext self =
          (StopAsyncIteration,
           self\<lparr>ss_response := rest,
                ss_cost := cost_add (ss_cost self) (map_cost (chunk_usage chunk))\<rparr>)"
    by (simp add: structured_anext_finish)
next
  fix chunk rest choice others
  assume "ss_response self = chunk # rest \<and> choices chunk = choice # others
        \<and> finish_reason choice = None \<and> content (delta choice) \<noteq> None"
  then show "structured_anext self =
          (Raised (AssertionError ''Expected tool calls, got content instead''),
           self\<lparr>ss_response := rest,
                ss_cost := cost_add (ss_cost self) (map_cost (chunk_usage chunk))\<rparr>)"
    by (simp add: structured_anext_content)
next
  fix self'
  assume "ss_response self = [tool_chunk [fragment 0 ''{\"a\": 4''], tool_chunk [fragment 0 ''2}'']]
        \<and> ss_delta_tool_calls self = [(0, first_delta)]
        \<and> snd (structured_anext (snd (structured_anext self))) = self'"
  then show "structured_get self' =
          ModelStructuredResponse
            [\<lparr>tool_name = ''final_result'', args = ArgsJson ''{\"a\": 42}'',
              tool_call_id = Some ''call_0''\<rparr>]
            (ss_timestamp self)"
    by (auto simp: structured_anext_def structured_get_def tool_chunk_def fragment_def
        first_delta_def merge_delta_def from_json_def Let_def)
qed

theorem anext_merges_every_delta_witness:
  "structured_anext accumulating =
     (Returned,
      accumulating\<lparr>ss_response := [tool_chunk [fragment 0 ''2}'']],
                   ss_cost := cost_add Cost (map_cost None),
                   ss_delta_tool_calls := merge_delta [(0, first_delta)] (fragment 0 ''{\"a\": 4'')\<rparr>)
   \<and> map_of (merge_delta [(0, partial_delta)] (fragment 1 ''{'')) 1 = Some (fragment 1 ''{'')
   \<and> (\<exists>cf'. map_of (merge_delta [(0, partial_delta)] (fragment 0 ''2}'')) 0
              = Some (partial_delta\<lparr>tc_function := Some cf'\<rparr>)
          \<and> fn_arguments cf' = Some ''{\"a\": 42}'' \<and> fn_name cf' = Some ''final_result'')
   \<and> index_deltas [first_delta, fragment 1 ''{''] = [(0, first_delta), (1, fragment 1 ''{'')]
   \<and> structured_anext finishing =
       (StopAsyncIteration, finishing\<lparr>ss_response := [], ss_cost := cost_add Cost (map_cost None)\<rparr>)
   \<and> structured_get (snd (structured_anext (snd (structured_anext accumulating)))) =
          ModelStructuredResponse
            [\<lparr>tool_name = ''final_result'', args = ArgsJson ''{\"a\": 42}'',
              tool_call_id = Some ''call_0''\<rparr>]
            1700000000"
proof -
  note inst = anext_merges_every_delta [of accumulating "[(0, partial_delta)]"]
  have 0: "structured_anext accumulating =
     (Returned,
      accumulating\<lparr>ss_response := [tool_chunk [fragment 0 ''2}'']],
                   ss_cost := cost_add Cost (map_cost None),
                   ss_delta_tool_calls := merge_delta [(0, first_delta)] (fragment 0 ''{\"a\": 4'')\<rparr>)"
    using inst [of "fragment 0 []" "[]", THEN conjunct1, rule_format,
        of "tool_chunk [fragment 0 ''{\"a\": 4'']" "[tool_chunk [fragment 0 ''2}'']]"
           "\<lparr>delta = \<lparr>content = None, tool_calls = Some [fragment 0 ''{\"a\": 4'']\<rparr>,
             finish_reason = None\<rparr>" "[]"]
    by (simp add: accumulating_def tool_chunk_def)
  have 1: "map_of (merge_delta [(0, partial_delta)] (fragment 1 ''{'')) 1 = Some (fragment 1 ''{'')"
    using inst [of "fragment 1 ''{''" "[]"]
    by (simp add: fragment_def)
  have 2: "\<exists>cf'. map_of (merge_delta [(0, partial_delta)] (fragment 0 ''2}'')) 0
              = Some (partial_delta\<lparr>tc_function := Some cf'\<rparr>)
          \<and> fn_arguments cf' = Some ''{\"a\": 42}'' \<and> fn_name cf' = Some ''final_result''"
    using inst [of "fragment 0 ''2}''" "[]", THEN conjunct2, THEN conjunct2, THEN conjunct2,
        THEN conjunct1]
    by (fastforce simp: fragment_def partial_delta_def)
  have 3: "index_deltas [first_delta, fragment 1 ''{''] = [(0, first_delta), (1, fragment 1 ''{'')]"
    using inst [of "fragment 0 []" "[first_delta, fragment 1 ''{'']"]
    by (simp add: first_delta_def fragment_def)
  have 4: "structured_anext finishing =
       (StopAsyncIteration, finishing\<lparr>ss_response := [], ss_cost := cost_add Cost (map_cost None)\<rparr>)"
    using anext_merges_every_delta [of finishing "[]" "fragment 0 []" "[]",
        THEN conjunct2, THEN conjunct2, THEN conjunct2, THEN conjunct2, THEN conjunct2,
        THEN conjunct2, THEN conjunct2, THEN conjunct2, THEN conjunct1, rule_format,
        of finish_chunk "[]"
           "\<lparr>delta = \<lparr>content = None, tool_calls = Some [fragment 1 ''{}'']\<rparr>,
             finish_reason = Some ''tool_calls''\<rparr>" "[]"]
    by (simp add: finishing_def finish_chunk_def)
  have 5: "structured_get (snd (structured_anext (snd (structured_anext accumulating)))) =
          ModelStructuredResponse
            [\<lparr>tool_name = ''final_result'', args = ArgsJson ''{\"a\": 42}'',
              tool_call_id = Some ''call_0''\<rparr>]
            1700000000"
    using inst [of "fragment 0 []" "[]"]
    by (simp add: accumulating_def)
  from 0 1 2 3 4 5 show ?thesis by blast
qed

text \<open>
  The claim as stated fails for the deltas that do not go through the merge.  A delta of
  an unseen index on a chunk with a finish marker is dropped: the call ends the stream and
  the map holds no index 1.  The same delta on a chunk with text content is dropped by the
  failing assertion.  In the bootstrap chunk a repeated index is not merged: the later
  delta replaces the earlier one, and the name and the first argument fragment of index 0
  are lost.
\<close>

theorem finish_and_bootstrap_deltas_not_merged:
  "tool_calls (delta (hd (choices finish_chunk))) = Some [fragment 1 ''{}'']
   \<and> fst (structured_anext finishing) = StopAsyncIteration
   \<and> map_of (ss_delta_tool_calls (snd (structured_anext finishing))) 1 = None
   \<and> tool_calls (delta (hd (choices content_chunk))) = Some [fragment 1 ''{}'']
   \<and> fst (structured_anext interrupted) =
       Raised (AssertionError ''Expected tool calls, got content instead'')
   \<and> map_of (ss_delta_tool_calls (snd (structured_anext interrupted))) 1 = None
   \<and> process_streamed_response [tool_chunk [partial_delta, fragment 0 ''2}'']] =
       Inr (StreamStructured
             \<lparr>ss_response = [], ss_delta_tool_calls = [(0, fragment 0 ''2}'')],
              ss_timestamp = 1700000000, ss_cost = Cost\<rparr>)"
  by (simp add: finishing_def finish_chunk_def interrupted_def content_chunk_def
      structured_anext_def first_delta_def
      process_streamed_response_def tool_chunk_def partial_delta_def fragment_def
      index_deltas_def fromtimestamp_def valid_timestamp_def cost_add_def map_cost_def Cost_def)

lemma get_calls_filter:
  "get_calls m =
     map (\<lambda>(i, c). completed_call c) (filter (\<lambda>(i, c). name_and_arguments_present c) m)"
  by (induction m rule: get_calls.induct)
     (auto simp: name_and_arguments_present_def completed_call_def split: option.splits)

text \<open>
  Claim C2.  \<^verbatim>\<open>get()\<close> returns, in the order of the in-progress map, one call for every
  index whose name and arguments are both present and nothing for the others: every call
  of the returned response carries the name, the arguments and the id of such an entry.
\<close>

theorem structured_get_complete_calls:
  "structured_get self =
     ModelStructuredResponse
       (map (\<lambda>(i, c). completed_call c)
            (filter (\<lambda>(i, c). name_and_arguments_present c) (ss_delta_tool_calls self)))
       (ss_timestamp self)
   \<and> (\<forall>calls ts. structured_get self = ModelStructuredResponse calls ts \<longrightarrow>
         (\<forall>tc \<in> set calls. \<exists>i c f n a.
            (i, c) \<in> set (ss_delta_tool_calls self) \<and> tc_function c = Some f
            \<and> fn_name f = Some n \<and> fn_arguments f = Some a
            \<and> tc = \<lparr>tool_name = n, args = ArgsJson a, tool_call_id = tc_id c\<rparr>))"
proof -
  have eq: "structured_get self =
     ModelStructuredResponse
       (map (\<lambda>(i, c). completed_call c)
            (filter (\<lambda>(i, c). name_and_arguments_present c) (ss_delta_tool_calls self)))
       (ss_timestamp self)"
    by (simp add: structured_get_def get_calls_filter)
  have "\<exists>i c f n a.
            (i, c) \<in> set (ss_delta_tool_calls self) \<and> tc_function c = Some f
            \<and> fn_name f = Some n \<and> fn_arguments f = Some a
            \<and> tc = \<lparr>tool_name = n, args = ArgsJson a, tool_call_id = tc_id c\<rparr>"
    if "tc \<in> set (map (\<lambda>(i, c). completed_call c)
            (filter (\<lambda>(i, c). name_and_arguments_present c) (ss_delta_tool_calls self)))" for tc
  proof -
    from that obtain i c where ic: "(i, c) \<in> set (ss_delta_tool_calls self)"
      and p: "name_and_arguments_present c" and tc: "tc = completed_call c"
      by auto
    from p obtain f n a
      where "tc_function c = Some f" "fn_name f = Some n" "fn_arguments f = Some a"
      by (auto simp: name_and_arguments_present_def split: option.splits)
    with ic tc show ?thesis
      by (auto simp: completed_call_def from_json_def)
  qed
  with eq show ?thesis by auto
qed

theorem structured_get_complete_calls_witness:
  "structured_get \<lparr>ss_response = [], ss_delta_tool_calls = in_progress,
                   ss_timestamp = 1700000000, ss_cost = Cost\<rparr>
     = ModelStructuredResponse
         [\<lparr>tool_name = ''get_weather'', args = ArgsJson ''{}'', tool_call_id = Some ''call_0''\<rparr>]
         1700000000"
  using structured_get_complete_calls [of "\<lparr>ss_response = [], ss_delta_tool_calls = in_progress,
                   ss_timestamp = 1700000000, ss_cost = Cost\<rparr>"]
  by (simp add: in_progress_def name_and_arguments_present_def completed_call_def from_json_def)

section \<open>Properties of the streaming bootstrap\<close>

lemma loop_first_chunk:
  "valid_timestamp (created c) \<Longrightarrow>
   process_streamed_loop None k (c # xs) = process_streamed_loop (Some (created c)) k (c # xs)"
  by (simp add: fromtimestamp_def)

lemma loop_out_of_range:
  "\<not> valid_timestamp (created c) \<Longrightarrow>
   process_streamed_loop None k (c # xs) = Inl TimestampOutOfRange"
  by (simp add: fromtimestamp_def)

lemma loop_skip:
  "\<forall>c \<in> set pre. \<not> has_content_or_tool_calls c \<Longrightarrow>
   process_streamed_loop (Some t) k (pre @ xs) =
     process_streamed_loop (Some t) (accumulate k pre) xs"
proof (induction pre arbitrary: k)
  case Nil
  then show ?case by (simp add: accumulate_def)
next
  case (Cons p pre)
  then have np: "\<not> has_content_or_tool_calls p"
    and rest: "\<forall>c \<in> set pre. \<not> has_content_or_tool_calls c"
    by simp_all
  have step: "process_streamed_loop (Some t) k (p # (pre @ xs)) =
      process_streamed_loop (Some t) (cost_add k (map_cost (chunk_usage p))) (pre @ xs)"
    using np by (auto simp: has_content_or_tool_calls_def Let_def split: list.splits option.splits)
  show ?case
    using step Cons.IH [OF rest, of "cost_add k (map_cost (chunk_usage p))"]
    by (simp add: accumulate_def)
qed

lemma loop_exhausted:
  "\<forall>c \<in> set pre. \<not> has_content_or_tool_calls c \<Longrightarrow>
   process_streamed_loop (Some t) k pre =
     Inl (UnexpectedModelBehavior ''Streamed response ended without content or tool calls'')"
  using loop_skip [of pre t k "[]"] by simp

lemma loop_first_timestamp:
  "process_streamed_loop ts k cs = Inr r \<Longrightarrow>
   either_timestamp r = (case ts of Some t \<Rightarrow> t | None \<Rightarrow> created (hd cs))"
proof (induction ts k cs rule: process_streamed_loop.induct)
  case (1 timestamp start_cost)
  then show ?case by simp
next
  case (2 timestamp start_cost chunk response)
  then show ?case
    by (auto simp: Let_def either_timestamp_def text_timestamp_def structured_timestamp_def
        fromtimestamp_def split: list.splits option.splits if_splits)
qed

lemma accumulate_counters:
  "request_tokens (accumulate k cs) =
     request_tokens k + sum_list (map (\<lambda>c. request_tokens (map_cost (chunk_usage c))) cs)"
  "response_tokens (accumulate k cs) =
     response_tokens k + sum_list (map (\<lambda>c. response_tokens (map_cost (chunk_usage c))) cs)"
  "total_tokens (accumulate k cs) =
     total_tokens k + sum_list (map (\<lambda>c. total_tokens (map_cost (chunk_usage c))) cs)"
  by (induction cs arbitrary: k) (simp_all add: accumulate_def cost_add_def)

lemma accumulate_snoc:
  "accumulate k (cs @ [c]) = cost_add (accumulate k cs) (map_cost (chunk_usage c))"
  by (simp add: accumulate_def)

lemma bootstrap_start:
  assumes "\<forall>c \<in> set pre. \<not> has_content_or_tool_calls c"
    and "valid_timestamp (created (hd (pre @ [c])))"
  shows "process_streamed_response (pre @ c # rest) =
           process_streamed_loop (Some (created (hd (pre @ [c])))) (accumulate Cost pre) (c # rest)"
proof (cases pre)
  case Nil
  with assms(2) have "valid_timestamp (created c)" by simp
  then have "process_streamed_loop None Cost (c # rest) =
      process_streamed_loop (Some (created c)) Cost (c # rest)"
    by (rule loop_first_chunk)
  then show ?thesis
    by (simp add: process_streamed_response_def Nil accumulate_def
        del: process_streamed_loop.simps)
next
  case (Cons p ps)
  with assms(2) have "valid_timestamp (created p)" by simp
  then have "process_streamed_loop None Cost (p # (ps @ c # rest)) =
      process_streamed_loop (Some (created p)) Cost ((p # ps) @ c # rest)"
    by (simp only: loop_first_chunk append_Cons)
  also have "\<dots> = process_streamed_loop (Some (created p)) (accumulate Cost (p # ps)) (c # rest)"
    using assms(1) unfolding Cons by (rule loop_skip)
  finally show ?thesis
    by (simp add: process_streamed_response_def Cons del: process_streamed_loop.simps)
qed

lemma bootstrap_exhausted:
  assumes "\<forall>c \<in> set pre. \<not> has_content_or_tool_calls c"
    and "valid_timestamp (created (hd (pre @ [c])))"
  shows "process_streamed_response pre =
           Inl (UnexpectedModelBehavior ''Streamed response ended without content or tool calls'')"
proof (cases pre)
  case Nil
  then show ?thesis by (simp add: process_streamed_response_def)
next
  case (Cons p ps)
  with assms(2) have "valid_timestamp (created p)" by simp
  then have "process_streamed_loop None Cost (p # ps) =
      process_streamed_loop (Some (created p)) Cost (p # ps)"
    by (rule loop_first_chunk)
  also have "\<dots> =
      Inl (UnexpectedModelBehavior ''Streamed response ended without content or tool calls'')"
    using assms(1) unfolding Cons by (rule loop_exhausted)
  finally show ?thesis
    by (simp add: process_streamed_response_def Cons del: process_streamed_loop.simps)
qed

lemma bootstrap_text:
  assumes "\<forall>c \<in> set pre. \<not> has_content_or_tool_calls c"
    and "valid_timestamp (created (hd (pre @ [c])))"
    and "choices c = ch # chs" and "content (delta ch) = Some t"
  shows "process_streamed_response (pre @ c # rest) =
           Inr (StreamText \<lparr>st_first = Some t, st_response = rest,
                            st_timestamp = created (hd (pre @ [c])),
                            st_cost = accumulate Cost (pre @ [c]), st_buffer = []\<rparr>)"
  unfolding bootstrap_start [OF assms(1,2)]
  using assms(3,4) by (simp add: accumulate_snoc Let_def)

lemma bootstrap_structured:
  assumes "\<forall>c \<in> set pre. \<not> has_content_or_tool_calls c"
    and "valid_timestamp (created (hd (pre @ [c])))"
    and "choices c = ch # chs" and "content (delta ch) = None"
    and "tool_calls (delta ch) = Some tcs"
  shows "process_streamed_response (pre @ c # rest) =
           Inr (StreamStructured \<lparr>ss_response = rest, ss_delta_tool_calls = index_deltas tcs,
                            ss_timestamp = created (hd (pre @ [c])),
                            ss_cost = accumulate Cost (pre @ [c])\<rparr>)"
  unfolding bootstrap_start [OF assms(1,2)]
  using assms(3,4,5) by (simp add: accumulate_snoc Let_def)

text \<open>
  Claim C5, as amended.  In the bootstrap of a stream whose first chunk has a valid
  \<^verbatim>\<open>created\<close> timestamp, the chunks that have no choice, or whose delta has neither
  \<^verbatim>\<open>content\<close> nor a \<^verbatim>\<open>tool_calls\<close> list, are skipped, and their usage is still added to
  the cost of the response that the first chunk with \<^verbatim>\<open>content\<close> or a \<^verbatim>\<open>tool_calls\<close> list
  starts; when the stream ends before such a chunk, the bootstrap fails with
  \<^verbatim>\<open>UnexpectedModelBehavior\<close> and returns no response.
\<close>

theorem bootstrap_skips_and_accumulates:
  assumes "\<forall>c \<in> set pre. \<not> has_content_or_tool_calls c"
    and "valid_timestamp (created (hd (pre @ [c])))"
  shows "process_streamed_response pre =
           Inl (UnexpectedModelBehavior ''Streamed response ended without content or tool calls'')
       \<and> (\<forall>ch chs t. choices c = ch # chs \<and> content (delta ch) = Some t \<longrightarrow>
            process_streamed_response (pre @ c # rest) =
              Inr (StreamText \<lparr>st_first = Some t, st_response = rest,
                               st_timestamp = created (hd (pre @ [c])),
                               st_cost = accumulate Cost (pre @ [c]), st_buffer = []\<rparr>))
       \<and> (\<forall>ch chs tcs. choices c = ch # chs \<and> content (delta ch) = None
              \<and> tool_calls (delta ch) = Some tcs \<longrightarrow>
            process_streamed_response (pre @ c # rest) =
              Inr (StreamStructured \<lparr>ss_response = rest, ss_delta_tool_calls = index_deltas tcs,
                               ss_timestamp = created (hd (pre @ [c])),
                               ss_cost = accumulate Cost (pre @ [c])\<rparr>))
       \<and> request_tokens (accumulate Cost (pre @ [c])) =
            sum_list (map (\<lambda>c. request_tokens (map_cost (chunk_usage c))) (pre @ [c]))
       \<and> response_tokens (accumulate Cost (pre @ [c])) =
            sum_list (map (\<lambda>c. response_tokens (map_cost (chunk_usage c))) (pre @ [c]))
       \<and> total_tokens (accumulate Cost (pre @ [c])) =
            sum_list (map (\<lambda>c. total_tokens (map_cost (chunk_usage c))) (pre @ [c]))"
proof (intro conjI allI impI)
  show "process_streamed_response pre =
           Inl (UnexpectedModelBehavior ''Streamed response ended without content or tool calls'')"
    using assms by (rule bootstrap_exhausted)
next
  fix ch chs t
  assume "choices c = ch # chs \<and> content (delta ch) = Some t"
  then show "process_streamed_response (pre @ c # rest) =
              Inr (StreamText \<lparr>st_first = Some t, st_response = rest,
                               st_timestamp = created (hd (pre @ [c])),
                               st_cost = accumulate Cost (pre @ [c]), st_buffer = []\<rparr>)"
    using bootstrap_text [OF assms] by blast
next
  fix ch chs tcs
  assume "choices c = ch # chs \<and> content (delta ch) = None \<and> tool_calls (delta ch) = Some tcs"
  then show "process_streamed_response (pre @ c # rest) =
              Inr (StreamStructured \<lparr>ss_response = rest, ss_delta_tool_calls = index_deltas tcs,
                               ss_timestamp = created (hd (pre @ [c])),
                               ss_cost = accumulate Cost (pre @ [c])\<rparr>)"
    using bootstrap_structured [OF assms] by blast
qed (simp_all only: accumulate_counters, simp_all add: Cost_def)

theorem bootstrap_skips_and_accumulates_witness:
  "process_streamed_response [heartbeat, role_chunk] =
     Inl (UnexpectedModelBehavior ''Streamed response ended without content or tool calls'')
   \<and> process_streamed_response [heartbeat, role_chunk, text_chunk] =
       Inr (StreamText \<lparr>st_first = Some ''hi'', st_response = [], st_timestamp = 100,
              st_cost = \<lparr>request_tokens = 7, response_tokens = 1, total_tokens = 8, details = []\<rparr>,
              st_buffer = []\<rparr>)"
proof -
  have skipped: "\<forall>c \<in> set [heartbeat, role_chunk]. \<not> has_content_or_tool_calls c"
    by (simp add: has_content_or_tool_calls_def heartbeat_def role_chunk_def)
  have valid: "valid_timestamp (created (hd ([heartbeat, role_chunk] @ [text_chunk])))"
    by (simp add: valid_timestamp_def heartbeat_def)
  have cost: "accumulate Cost [heartbeat, role_chunk, text_chunk] =
      \<lparr>request_tokens = 7, response_tokens = 1, total_tokens = 8, details = []\<rparr>"
    by (simp add: accumulate_def cost_add_def map_cost_def Cost_def heartbeat_def role_chunk_def
        text_chunk_def)
  show ?thesis
    using bootstrap_skips_and_accumulates [OF skipped valid, of "[]"] cost
    by (simp add: text_chunk_def heartbeat_def)
qed

text \<open>
  The claim as stated fails in two ways.  A chunk whose \<^verbatim>\<open>tool_calls\<close> list is present and
  empty carries neither text nor a tool-call delta, and the bootstrap does not skip it but
  returns a structured response with an empty in-progress map.  A first chunk that carries
  neither and whose \<^verbatim>\<open>created\<close> value is out of range is not skipped either: the
  conversion of its timestamp raises, though a chunk with content follows.
\<close>

theorem empty_tool_call_list_not_skipped:
  "\<not> carries_text_or_tool_call_delta empty_tool_calls_chunk
   \<and> process_streamed_response [empty_tool_calls_chunk] =
       Inr (StreamStructured \<lparr>ss_response = [], ss_delta_tool_calls = [],
                               ss_timestamp = 100, ss_cost = Cost\<rparr>)
   \<and> \<not> carries_text_or_tool_call_delta millisecond_heartbeat
   \<and> carries_text_or_tool_call_delta text_chunk
   \<and> process_streamed_response [millisecond_heartbeat, text_chunk] = Inl TimestampOutOfRange"
  by (simp add: carries_text_or_tool_call_delta_def empty_tool_calls_chunk_def
      millisecond_heartbeat_def text_chunk_def process_streamed_response_def index_deltas_def
      fromtimestamp_def valid_timestamp_def cost_add_def map_cost_def Cost_def)

lemma text_anext_timestamp: "st_timestamp (snd (text_anext t)) = st_timestamp t"
  by (auto simp: text_anext_def Let_def split: option.splits list.splits)

lemma structured_anext_timestamp: "ss_timestamp (snd (structured_anext s)) = ss_timestamp s"
  by (auto simp: structured_anext_def Let_def split: option.splits list.splits)

lemma text_steps_timestamp: "st_timestamp (((snd \<circ> text_anext) ^^ n) t) = st_timestamp t"
  by (induction n) (simp_all add: text_anext_timestamp)

lemma structured_steps_timestamp:
  "ss_timestamp (((snd \<circ> structured_anext) ^^ n) s) = ss_timestamp s"
  by (induction n) (simp_all add: structured_anext_timestamp)

text \<open>
  Claim C6, as amended.  The timestamp of a streamed response is the \<^verbatim>\<open>created\<close> value of
  the first chunk of the stream, informative or not, and no later call of \<^verbatim>\<open>__anext__\<close>
  or \<^verbatim>\<open>get\<close> changes it.
\<close>

theorem response_timestamp_is_first_chunk:
  "(\<forall>r. process_streamed_response (c0 # rest) = Inr r \<longrightarrow> either_timestamp r = created c0)
   \<and> text_timestamp (((snd \<circ> text_anext) ^^ n) t) = text_timestamp t
   \<and> text_timestamp (snd (text_get t)) = text_timestamp t
   \<and> structured_timestamp (((snd \<circ> structured_anext) ^^ n) s) = structured_timestamp s
   \<and> structured_get (((snd \<circ> structured_anext) ^^ n) s) =
       ModelStructuredResponse (get_calls (ss_delta_tool_calls (((snd \<circ> structured_anext) ^^ n) s)))
         (structured_timestamp s)"
proof -
  have "either_timestamp r = created c0" if "process_streamed_response (c0 # rest) = Inr r" for r
    using loop_first_timestamp [of None Cost "c0 # rest" r] that
    by (simp add: process_streamed_response_def)
  then show ?thesis
    by (simp add: text_timestamp_def structured_timestamp_def text_get_def structured_get_def
        text_steps_timestamp structured_steps_timestamp)
qed

theorem response_timestamp_is_first_chunk_witness:
  "process_streamed_response [heartbeat, text_chunk] =
       Inr (StreamText \<lparr>st_first = Some ''hi'', st_response = [], st_timestamp = 100,
              st_cost = \<lparr>request_tokens = 7, response_tokens = 1, total_tokens = 8, details = []\<rparr>,
              st_buffer = []\<rparr>)
   \<and> either_timestamp (StreamText \<lparr>st_first = Some ''hi'', st_response = [], st_timestamp = 100,
              st_cost = \<lparr>request_tokens = 7, response_tokens = 1, total_tokens = 8, details = []\<rparr>,
              st_buffer = []\<rparr>) = created heartbeat"
proof -
  have run: "process_streamed_response [heartbeat, text_chunk] =
       Inr (StreamText \<lparr>st_first = Some ''hi'', st_response = [], st_timestamp = 100,
              st_cost = \<lparr>request_tokens = 7, response_tokens = 1, total_tokens = 8, details = []\<rparr>,
              st_buffer = []\<rparr>)"
    by (simp add: process_streamed_response_def heartbeat_def text_chunk_def cost_add_def
        map_cost_def Cost_def fromtimestamp_def valid_timestamp_def)
  with response_timestamp_is_first_chunk [of heartbeat "[text_chunk]"] show ?thesis
    by simp
qed

text \<open>
  The claim as stated fails when a skipped chunk comes first: the response takes the
  timestamp 100 of the heartbeat, not the timestamp 200 of the first chunk with content.
\<close>

theorem timestamp_not_of_first_informative_chunk:
  "process_streamed_response [heartbeat, text_chunk] =
       Inr (StreamText \<lparr>st_first = Some ''hi'', st_response = [], st_timestamp = 100,
              st_cost = \<lparr>request_tokens = 7, response_tokens = 1, total_tokens = 8, details = []\<rparr>,
              st_buffer = []\<rparr>)
   \<and> find carries_text_or_tool_call_delta [heartbeat, text_chunk] = Some text_chunk
   \<and> created text_chunk = 200"
  by (simp add: process_streamed_response_def heartbeat_def text_chunk_def cost_add_def
      map_cost_def Cost_def carries_text_or_tool_call_delta_def fromtimestamp_def
      valid_timestamp_def)

section \<open>Properties of the run loop\<close>

lemma response_message_not_system: "\<not> is_system (response_message r)"
  by (cases r) simp_all

lemma handle_call_not_system:
  "handle_call ag retries c = Appended r m \<Longrightarrow> \<not> is_system m"
  "handle_call ag retries c = Final d m \<Longrightarrow> \<not> is_system m"
  by (auto simp: handle_call_def retry_with_def unknown_tool_def
      split: option.splits sum.splits)

lemma handle_calls_not_system:
  "handle_calls ag retries cs acc = out \<Longrightarrow> \<forall>m \<in> set acc. \<not> is_system m \<Longrightarrow>
   (case out of
      Loop r msgs \<Rightarrow> \<forall>m \<in> set msgs. \<not> is_system m
    | HDone d msgs \<Rightarrow> \<forall>m \<in> set msgs. \<not> is_system m
    | HFatal e msgs \<Rightarrow> True)"
proof (induction cs arbitrary: retries acc)
  case Nil
  then show ?case by auto
next
  case (Cons c cs)
  show ?case
  proof (cases "handle_call ag retries c")
    case (Appended r m)
    then have "\<not> is_system m" by (rule handle_call_not_system)
    with Cons.prems(2) have "\<forall>x \<in> set (acc @ [m]). \<not> is_system x" by simp
    moreover from Cons.prems(1) Appended have "handle_calls ag r cs (acc @ [m]) = out" by simp
    ultimately show ?thesis by (rule Cons.IH [rotated])
  next
    case (Final d m)
    then have "\<not> is_system m" by (rule handle_call_not_system)
    with Cons.prems Final show ?thesis by auto
  next
    case (Failed e)
    with Cons.prems show ?thesis by auto
  qed
qed

lemma handle_response_not_system:
  "handle_response ag retries resp = Loop r msgs \<Longrightarrow> \<forall>m \<in> set msgs. \<not> is_system m"
  "handle_response ag retries resp = HDone d msgs \<Longrightarrow> \<forall>m \<in> set msgs. \<not> is_system m"
  using handle_calls_not_system [of ag retries _ "[]" "Loop r msgs"]
    handle_calls_not_system [of ag retries _ "[]" "HDone d msgs"]
  by (auto simp: handle_response_def split: model_any_response.splits if_splits sum.splits)

lemma run_loop_done:
  "run_loop fuel ag model idx messages k retries = Done r \<Longrightarrow>
   new_message_index r = idx
   \<and> (\<exists>produced. all_messages r = messages @ produced \<and> (\<forall>m \<in> set produced. \<not> is_system m))"
proof (induction fuel arbitrary: messages k retries)
  case 0
  then show ?case by simp
next
  case (Suc fuel)
  obtain resp rc where m: "model messages = (resp, rc)" by (cases "model messages")
  show ?case
  proof (cases "handle_response ag retries resp")
    case (Loop r' msgs)
    with Suc.prems m have
      "run_loop fuel ag model idx (messages @ [response_message resp] @ msgs) (cost_add k rc) r' = Done r"
      by (simp add: Let_def)
    from Suc.IH [OF this] obtain produced where
      "new_message_index r = idx"
      "all_messages r = (messages @ [response_message resp] @ msgs) @ produced"
      "\<forall>m \<in> set produced. \<not> is_system m"
      by blast
    moreover have "\<forall>m \<in> set msgs. \<not> is_system m"
      using Loop by (rule handle_response_not_system)
    ultimately show ?thesis
      by (intro conjI exI [of _ "[response_message resp] @ msgs @ produced"])
         (auto simp: response_message_not_system)
  next
    case (HDone d msgs)
    moreover have "\<forall>m \<in> set msgs. \<not> is_system m"
      using HDone by (rule handle_response_not_system)
    ultimately show ?thesis
      using Suc.prems m
      by (intro conjI exI [of _ "[response_message resp] @ msgs"])
         (auto simp: Let_def response_message_not_system)
  next
    case (HFatal e msgs)
    with Suc.prems m show ?thesis by (simp add: Let_def)
  qed
qed

lemma prepare_messages_eq:
  "prepare_messages ag p h =
     (length (inserted_prompts ag h @ h), inserted_prompts ag h @ h @ [UserPrompt p])"
  by (simp add: prepare_messages_def inserted_prompts_def Let_def)

lemma run_done:
  assumes "run fuel ag model p h = Done r"
  shows "new_message_index r = length (inserted_prompts ag h) + length h"
    and "\<exists>produced. all_messages r = inserted_prompts ag h @ h @ UserPrompt p # produced
           \<and> (\<forall>m \<in> set produced. \<not> is_system m)"
proof -
  from assms have
    "run_loop fuel ag model (length (inserted_prompts ag h @ h))
       (inserted_prompts ag h @ h @ [UserPrompt p]) Cost 0 = Done r"
    by (simp add: run_def prepare_messages_eq)
  from run_loop_done [OF this]
  show "new_message_index r = length (inserted_prompts ag h) + length h"
    and "\<exists>produced. all_messages r = inserted_prompts ag h @ h @ UserPrompt p # produced
           \<and> (\<forall>m \<in> set produced. \<not> is_system m)"
    by auto
qed

text \<open>
  Claim C3, as amended.  For every run that ends in \<open>Done\<close>, \<^verbatim>\<open>new_message_index\<close> is the
  length of the supplied history plus the number of system prompts the bootstrap put in
  front of it (none when the history already contains a \<^verbatim>\<open>SystemPrompt\<close>), and
  \<^verbatim>\<open>new_messages()\<close> is \<^verbatim>\<open>all_messages()\<close> sliced from that index: the user prompt of this
  run followed by the messages produced during it.
\<close>

theorem run_new_message_index:
  assumes "run fuel ag model user_prompt message_history = Done r"
  shows "new_message_index r =
           length message_history + length (inserted_prompts ag message_history)
       \<and> new_messages r = drop (new_message_index r) (all_messages r)
       \<and> (\<exists>produced.
             all_messages r =
               inserted_prompts ag message_history @ message_history
                 @ UserPrompt user_prompt # produced
             \<and> new_messages r = UserPrompt user_prompt # produced)"
proof -
  from run_done [OF assms] obtain produced where
    idx: "new_message_index r = length (inserted_prompts ag message_history) + length message_history"
    and all: "all_messages r =
      inserted_prompts ag message_history @ message_history @ UserPrompt user_prompt # produced"
    by blast
  have "new_messages r = UserPrompt user_prompt # produced"
    by (simp add: new_messages_def idx all)
  with idx all show ?thesis
    by (auto simp: new_messages_def)
qed

lemma cost_add_Cost: "cost_add Cost Cost = Cost"
  by (simp add: cost_add_def Cost_def)

lemma second_run:
  "run 5 foobar_agent test_model ''Hello again'' first_run_messages = Done second_run_result"
  by (simp add: run_def prepare_messages_def init_messages_def foobar_agent_def test_model_def
      first_run_messages_def second_run_result_def handle_response_def allow_text_def
      cost_add_Cost Let_def numeral_nat)

lemma second_run_all:
  "run 5 foobar_agent test_model ''Hello again'' (SystemPrompt ''Foobar'' # first_run_messages)
     = Done second_run_result"
  by (simp add: run_def prepare_messages_def init_messages_def foobar_agent_def test_model_def
      first_run_messages_def second_run_result_def handle_response_def allow_text_def
      cost_add_Cost Let_def numeral_nat)

lemma fixed_run:
  "run 5 plain_agent fix_model ''Hello'' [] = Done fixed_run_result"
  by (simp add: run_def prepare_messages_def init_messages_def plain_agent_def fix_model_def
      fixed_run_result_def handle_response_def handle_call_def retry_with_def
      incr_result_retry_def unknown_tool_def unknown_tool_content_def tool_names_def
      result_tools_def find_tool_def allow_text_def from_json_def
      cost_add_Cost Let_def numeral_nat)

theorem run_new_message_index_witness:
  "run 5 foobar_agent test_model ''Hello again'' first_run_messages = Done second_run_result
   \<and> new_message_index second_run_result = 4 + 1
   \<and> new_messages second_run_result =
       [UserPrompt ''Hello again'', ModelTextResponse ''{\"ret_a\":\"a-apple\"}'' 0]"
  using run_new_message_index [OF second_run] second_run
  by (simp add: inserted_prompts_def init_messages_def foobar_agent_def first_run_messages_def
      second_run_result_def)

text \<open>
  The claim as stated fails on the second run of \<^verbatim>\<open>test_run_with_history_new\<close>: the
  history passed in has four messages and no system prompt, and the result has
  \<^verbatim>\<open>new_message_index = 5\<close>.
\<close>

theorem new_message_index_not_input_length:
  "run 5 foobar_agent test_model ''Hello again'' first_run_messages = Done second_run_result
   \<and> new_message_index second_run_result = 5
   \<and> length first_run_messages = 4"
  using second_run by (simp add: second_run_result_def first_run_messages_def)

lemma filter_not_system: "\<forall>m \<in> set ms. \<not> is_system m \<Longrightarrow> filter is_system ms = []"
  by (induction ms) simp_all

text \<open>
  Claim C4, as amended.  Before the first model request the loop puts the configured
  system prompts, in order, in front of a supplied history that contains no
  \<^verbatim>\<open>SystemPrompt\<close>, and adds none to a history that contains one; the final history is
  the inserted prompts, the supplied history and the new messages of this run, so its
  length is the input length plus the new messages plus the number of inserted prompts.
  With exactly one configured system prompt and a history without one, exactly one
  \<^verbatim>\<open>SystemPrompt\<close> is present, at position 0.
\<close>

theorem history_bootstrap:
  "snd (prepare_messages ag user_prompt message_history) =
      inserted_prompts ag message_history @ message_history @ [UserPrompt user_prompt]
   \<and> (\<not> list_ex is_system message_history \<longrightarrow>
        inserted_prompts ag message_history = map SystemPrompt (ag_system_prompts ag))
   \<and> (list_ex is_system message_history \<longrightarrow> inserted_prompts ag message_history = [])
   \<and> (\<forall>r. run fuel ag model user_prompt message_history = Done r \<longrightarrow>
        all_messages r = inserted_prompts ag message_history @ message_history @ new_messages r
        \<and> length (all_messages r) =
            length message_history + length (new_messages r)
              + length (inserted_prompts ag message_history)
        \<and> (\<forall>s. ag_system_prompts ag = [s] \<and> \<not> list_ex is_system message_history \<longrightarrow>
              hd (all_messages r) = SystemPrompt s
              \<and> filter is_system (all_messages r) = [SystemPrompt s]))"
proof (intro conjI allI impI)
  show "snd (prepare_messages ag user_prompt message_history) =
      inserted_prompts ag message_history @ message_history @ [UserPrompt user_prompt]"
    by (simp add: prepare_messages_eq)
  show "inserted_prompts ag message_history = map SystemPrompt (ag_system_prompts ag)"
    if "\<not> list_ex is_system message_history"
    using that by (simp add: inserted_prompts_def init_messages_def)
  show "inserted_prompts ag message_history = []" if "list_ex is_system message_history"
    using that by (simp add: inserted_prompts_def)
next
  fix r
  assume dn: "run fuel ag model user_prompt message_history = Done r"
  from run_done [OF dn] obtain produced where
    idx: "new_message_index r =
            length (inserted_prompts ag message_history) + length message_history"
    and all: "all_messages r =
      inserted_prompts ag message_history @ message_history @ UserPrompt user_prompt # produced"
    and prod: "\<forall>m \<in> set produced. \<not> is_system m"
    by blast
  have new: "new_messages r = UserPrompt user_prompt # produced"
    by (simp add: new_messages_def idx all)
  show split: "all_messages r =
      inserted_prompts ag message_history @ message_history @ new_messages r"
    by (simp add: all new)
  show "length (all_messages r) =
      length message_history + length (new_messages r)
        + length (inserted_prompts ag message_history)"
    by (simp add: all new)
  fix s
  assume one: "ag_system_prompts ag = [s] \<and> \<not> list_ex is_system message_history"
  then have ins: "inserted_prompts ag message_history = [SystemPrompt s]"
    by (simp add: inserted_prompts_def init_messages_def)
  from one have "\<forall>m \<in> set message_history. \<not> is_system m"
    by (simp add: list_ex_iff)
  then have "filter is_system message_history = []"
    by (rule filter_not_system)
  moreover have "filter is_system produced = []"
    using prod by (rule filter_not_system)
  ultimately show "hd (all_messages r) = SystemPrompt s"
    and "filter is_system (all_messages r) = [SystemPrompt s]"
    by (simp_all add: all ins)
qed

theorem history_bootstrap_witness:
  "run 5 foobar_agent test_model ''Hello again'' first_run_messages = Done second_run_result
   \<and> hd (all_messages second_run_result) = SystemPrompt ''Foobar''
   \<and> filter is_system (all_messages second_run_result) = [SystemPrompt ''Foobar'']
   \<and> length (all_messages second_run_result) = 4 + length (new_messages second_run_result) + 1
   \<and> run 5 foobar_agent test_model ''Hello again'' (SystemPrompt ''Foobar'' # first_run_messages)
       = Done second_run_result
   \<and> length (all_messages second_run_result) = 5 + length (new_messages second_run_result) + 0"
proof -
  have no: "\<not> list_ex is_system first_run_messages"
    by (simp add: first_run_messages_def)
  have one: "ag_system_prompts foobar_agent = [''Foobar'']"
    by (simp add: foobar_agent_def)
  have len: "length first_run_messages = 4"
    by (simp add: first_run_messages_def)
  note first = history_bootstrap [of foobar_agent "''Hello again''" first_run_messages 5
      test_model, THEN conjunct2, THEN conjunct2]
  note all = history_bootstrap [of foobar_agent "''Hello again''"
      "SystemPrompt ''Foobar'' # first_run_messages" 5 test_model, THEN conjunct2, THEN conjunct2]
  have ins1: "inserted_prompts foobar_agent first_run_messages = [SystemPrompt ''Foobar'']"
    using no one by (simp add: inserted_prompts_def init_messages_def)
  have ins2: "inserted_prompts foobar_agent (SystemPrompt ''Foobar'' # first_run_messages) = []"
    by (simp add: inserted_prompts_def)
  have a1: "hd (all_messages second_run_result) = SystemPrompt ''Foobar''
      \<and> filter is_system (all_messages second_run_result) = [SystemPrompt ''Foobar'']"
    using first second_run no one by blast
  have "length (all_messages second_run_result) =
      length first_run_messages + length (new_messages second_run_result)
        + length (inserted_prompts foobar_agent first_run_messages)"
    using first second_run by blast
  then have a2: "length (all_messages second_run_result) =
      4 + length (new_messages second_run_result) + 1"
    by (simp only: len ins1 list.size One_nat_def add_0)
  have "length (all_messages second_run_result) =
      length (SystemPrompt ''Foobar'' # first_run_messages)
        + length (new_messages second_run_result)
        + length (inserted_prompts foobar_agent (SystemPrompt ''Foobar'' # first_run_messages))"
    using all second_run_all by blast
  then have b: "length (all_messages second_run_result) =
      5 + length (new_messages second_run_result) + 0"
    by (simp add: len ins2)
  note a = conjI [OF a1 a2]
  from a b second_run second_run_all show ?thesis by blast
qed

text \<open>
  The claim as stated fails for an agent without a configured system prompt, as in
  \<^verbatim>\<open>test_unknown_tool_fix\<close>: the history starts with the user prompt and holds no
  \<^verbatim>\<open>SystemPrompt\<close> at all.
\<close>

theorem no_system_prompt_configured:
  "run 5 plain_agent fix_model ''Hello'' [] = Done fixed_run_result
   \<and> filter is_system (all_messages fixed_run_result) = []
   \<and> hd (all_messages fixed_run_result) = UserPrompt ''Hello''"
  using fixed_run by (simp add: fixed_run_result_def)

lemma handle_call_unknown:
  assumes "unknown_name ag (tool_name call)"
  shows "handle_call ag retries call =
     (if retries < ag_max_retries ag
      then Appended (Suc retries) (unknown_tool ag (tool_name call))
      else Failed (retry_limit_message (ag_max_retries ag)))"
  using assms
  by (auto simp: unknown_name_def handle_call_def retry_with_def incr_result_retry_def
      retry_limit_message_def)

lemma handle_response_unknown:
  assumes "unknown_name ag (tool_name call)"
  shows "handle_response ag retries (AnyStructured [call] ts) =
     (if retries < ag_max_retries ag
      then Loop (Suc retries) [unknown_tool ag (tool_name call)]
      else HFatal (retry_limit_message (ag_max_retries ag)) [])"
  by (simp add: handle_response_def handle_call_unknown [OF assms])

text \<open>
  Claim C7.  A tool call whose name matches neither a function tool nor a result tool
  appends exactly one \<^verbatim>\<open>RetryPrompt\<close> and takes exactly one retry slot; its content is
  \<^verbatim>\<open>Unknown tool name: '<name>'.\<close> followed by the list of valid tool names when there are
  tools and by \<^verbatim>\<open>No tools available.\<close> otherwise; with the maximum of 1 a second
  consecutive unknown-tool response is fatal with
  \<^verbatim>\<open>Exceeded maximum retries (1) for result validation\<close>, the history holding the first
  response, the retry prompt and the second response.
\<close>

theorem unknown_tool_retry:
  assumes "unknown_name ag (tool_name call)"
  shows "(retries < ag_max_retries ag \<longrightarrow>
            handle_call ag retries call =
              Appended (Suc retries)
                (RetryPrompt (RetryText (unknown_tool_content ag (tool_name call))) None None))
       \<and> (retries < ag_max_retries ag \<longrightarrow>
            handle_response ag retries (AnyStructured [call] ts) =
              Loop (Suc retries)
                [RetryPrompt (RetryText (unknown_tool_content ag (tool_name call))) None None])
       \<and> unknown_tool_content ag (tool_name call) =
            ''Unknown tool name: '' @ [CHR 0x27] @ tool_name call @ [CHR 0x27] @ ''. ''
              @ (if tool_names ag = [] then ''No tools available.''
                 else ag_list_names ag (tool_names ag))
       \<and> (ag_max_retries ag \<le> retries \<longrightarrow>
            handle_response ag retries (AnyStructured [call] ts) =
              HFatal (retry_limit_message (ag_max_retries ag)) [])
       \<and> (\<forall>call2 ts2 k1 k2 retry.
            ag_max_retries ag = 1
            \<and> unknown_name ag (tool_name call2)
            \<and> retry = RetryPrompt (RetryText (unknown_tool_content ag (tool_name call))) None None
            \<and> model messages = (AnyStructured [call] ts, k1)
            \<and> model (messages @ [ModelStructuredResponse [call] ts, retry])
                = (AnyStructured [call2] ts2, k2) \<longrightarrow>
            run_loop (Suc (Suc fuel)) ag model idx messages k 0 =
              Fatal ''Exceeded maximum retries (1) for result validation''
                (messages @ [ModelStructuredResponse [call] ts, retry,
                             ModelStructuredResponse [call2] ts2]))"
proof (intro conjI allI impI)
  show "handle_call ag retries call =
      Appended (Suc retries)
        (RetryPrompt (RetryText (unknown_tool_content ag (tool_name call))) None None)"
    if "retries < ag_max_retries ag"
    using that by (simp add: handle_call_unknown [OF assms] unknown_tool_def)
  show "handle_response ag retries (AnyStructured [call] ts) =
      Loop (Suc retries)
        [RetryPrompt (RetryText (unknown_tool_content ag (tool_name call))) None None]"
    if "retries < ag_max_retries ag"
    using that by (simp add: handle_response_unknown [OF assms] unknown_tool_def)
  show "unknown_tool_content ag (tool_name call) =
      ''Unknown tool name: '' @ [CHR 0x27] @ tool_name call @ [CHR 0x27] @ ''. ''
        @ (if tool_names ag = [] then ''No tools available.''
           else ag_list_names ag (tool_names ag))"
    by (simp add: unknown_tool_content_def)
  show "handle_response ag retries (AnyStructured [call] ts) =
      HFatal (retry_limit_message (ag_max_retries ag)) []"
    if "ag_max_retries ag \<le> retries"
    using that by (simp add: handle_response_unknown [OF assms])
next
  fix call2 ts2 k1 k2 retry
  assume h: "ag_max_retries ag = 1
            \<and> unknown_name ag (tool_name call2)
            \<and> retry = RetryPrompt (RetryText (unknown_tool_content ag (tool_name call))) None None
            \<and> model messages = (AnyStructured [call] ts, k1)
            \<and> model (messages @ [ModelStructuredResponse [call] ts, retry])
                = (AnyStructured [call2] ts2, k2)"
  then have m1: "ag_max_retries ag = 1"
    and u2: "unknown_name ag (tool_name call2)"
    and r: "retry = unknown_tool ag (tool_name call)"
    and r1: "model messages = (AnyStructured [call] ts, k1)"
    and r2: "model (messages @ [ModelStructuredResponse [call] ts,
                unknown_tool ag (tool_name call)]) = (AnyStructured [call2] ts2, k2)"
    by (auto simp: unknown_tool_def)
  have one: "show_nat (Suc 0) = ''1''" by simp
  show "run_loop (Suc (Suc fuel)) ag model idx messages k 0 =
              Fatal ''Exceeded maximum retries (1) for result validation''
                (messages @ [ModelStructuredResponse [call] ts, retry,
                             ModelStructuredResponse [call2] ts2])"
    by (simp add: r r1 r2 m1 handle_response_unknown [OF assms] handle_response_unknown [OF u2]
        retry_limit_message_def one del: show_nat.simps)
qed

theorem unknown_tool_retry_witness:
  "unknown_name plain_agent ''foobar''
   \<and> handle_response plain_agent 0 (AnyStructured [from_json ''foobar'' ''{}'' None] 0) =
       Loop 1 [RetryPrompt (RetryText (''Unknown tool name: '' @ [CHR 0x27] @ ''foobar''
                  @ [CHR 0x27] @ ''. No tools available.'')) None None]
   \<and> run 5 plain_agent unknown_model ''Hello'' [] =
       Fatal ''Exceeded maximum retries (1) for result validation''
         [UserPrompt ''Hello'',
          ModelStructuredResponse [from_json ''foobar'' ''{}'' None] 0,
          RetryPrompt (RetryText (''Unknown tool name: '' @ [CHR 0x27] @ ''foobar''
                  @ [CHR 0x27] @ ''. No tools available.'')) None None,
          ModelStructuredResponse [from_json ''foobar'' ''{}'' None] 0]"
proof -
  have u: "unknown_name plain_agent (tool_name (from_json ''foobar'' ''{}'' None))"
    by (simp add: unknown_name_def plain_agent_def from_json_def find_tool_def result_tools_def)
  have names: "tool_names plain_agent = []"
    by (simp add: tool_names_def plain_agent_def result_tools_def)
  have m: "ag_max_retries plain_agent = 1"
    by (simp add: plain_agent_def)
  have start: "run 5 plain_agent unknown_model ''Hello'' [] =
      run_loop (Suc (Suc 3)) plain_agent unknown_model 0 [UserPrompt ''Hello''] Cost 0"
    by (simp add: run_def prepare_messages_def init_messages_def plain_agent_def numeral_nat)
  note inst = unknown_tool_retry [OF u, of 0 0 unknown_model "[UserPrompt ''Hello'']" 3 0 Cost]
  have c: "unknown_tool_content plain_agent ''foobar'' =
      ''Unknown tool name: '' @ [CHR 0x27] @ ''foobar'' @ [CHR 0x27] @ ''. No tools available.''"
    using inst names by (simp add: from_json_def)
  have l: "handle_response plain_agent 0 (AnyStructured [from_json ''foobar'' ''{}'' None] 0) =
       Loop 1 [RetryPrompt (RetryText (unknown_tool_content plain_agent ''foobar'')) None None]"
    using inst m by (simp add: from_json_def)
  have "run_loop (Suc (Suc 3)) plain_agent unknown_model 0 [UserPrompt ''Hello''] Cost 0 =
       Fatal ''Exceeded maximum retries (1) for result validation''
         ([UserPrompt ''Hello''] @
          [ModelStructuredResponse [from_json ''foobar'' ''{}'' None] 0,
           RetryPrompt (RetryText (unknown_tool_content plain_agent ''foobar'')) None None,
           ModelStructuredResponse [from_json ''foobar'' ''{}'' None] 0])"
    using inst [THEN conjunct2, THEN conjunct2, THEN conjunct2, THEN conjunct2, rule_format,
        of "from_json ''foobar'' ''{}'' None"
           "RetryPrompt (RetryText (unknown_tool_content plain_agent ''foobar'')) None None"
           Cost 0 Cost] u m
    by (simp add: unknown_model_def from_json_def)
  with start c l u show ?thesis
    by (simp add: from_json_def)
qed

section \<open>Properties of the result schema\<close>





end
